theory Spec2Isabelle
  imports Main "HOL-Library.Char_ord" "HOL-Library.List_Lexorder"
begin

section \<open>JavaScript values and string helpers\<close>

text \<open>
  The handlers of the oil-market backend are JavaScript. Strings are modelled as
  \<open>string\<close> (byte lists, compared lexicographically by character code), database
  integers as \<open>int\<close>. Prices are IEEE doubles in the source (\<open>DOUBLE PRECISION\<close>);
  they are kept abstract: a type parameter \<open>'p\<close> with the two operations the order
  handler applies to them taken as parameters, so that no law of exact arithmetic is
  assumed of them.
\<close>

record 'p arith =
  f_add :: "'p \<Rightarrow> 'p \<Rightarrow> 'p"
  f_mul :: "'p \<Rightarrow> int \<Rightarrow> 'p"
  f_parse :: "string \<Rightarrow> 'p option"

text \<open>
  \<open>f_add a b\<close> is \<open>a + b\<close> and \<open>f_mul a n\<close> is \<open>a * n\<close> on doubles (the quantity
  \<open>n\<close> is an integer-valued double); \<open>f_parse s\<close> is \<open>parseFloat(s)\<close>, with \<open>None\<close> for
  \<open>NaN\<close>. The double zero is the \<open>0\<close> of the type.
\<close>

definition digit_char :: "nat \<Rightarrow> char" where
  "digit_char d = ''0123456789abcdefghijklmnopqrstuvwxyz'' ! d"

function show_nat :: "nat \<Rightarrow> string" where
  "show_nat n = (if n < 10 then [digit_char n] else show_nat (n div 10) @ [digit_char (n mod 10)])"
  by pat_completeness auto
termination
  by (relation "measure id") auto

declare show_nat.simps [simp del]

definition show_int :: "int \<Rightarrow> string" where
  "show_int i = (if i < 0 then CHR ''-'' # show_nat (nat (- i)) else show_nat (nat i))"

definition padStart :: "nat \<Rightarrow> char \<Rightarrow> string \<Rightarrow> string" where
  "padStart n c s = replicate (n - length s) c @ s"

definition substring :: "nat \<Rightarrow> nat \<Rightarrow> string \<Rightarrow> string" where
  "substring a b s = take (b - a) (drop a s)"

definition replace_dashes :: "string \<Rightarrow> string" where
  "replace_dashes s = filter (\<lambda>c. c \<noteq> CHR ''-'') s"

definition upper_char :: "char \<Rightarrow> char" where
  "upper_char c =
     (case map_of (zip ''abcdefghijklmnopqrstuvwxyz'' ''ABCDEFGHIJKLMNOPQRSTUVWXYZ'') c of
        None \<Rightarrow> c
      | Some u \<Rightarrow> u)"

definition toUpperCase :: "string \<Rightarrow> string" where
  "toUpperCase s = map upper_char s"

text \<open>\<open>x || d\<close> on an optional string: \<open>undefined\<close> and the empty string are falsy.\<close>

definition or_default :: "string option \<Rightarrow> string \<Rightarrow> string" where
  "or_default x d = (case x of None \<Rightarrow> d | Some s \<Rightarrow> if s = [] then d else s)"

definition truthy :: "string option \<Rightarrow> bool" where
  "truthy x = (case x of None \<Rightarrow> False | Some s \<Rightarrow> s \<noteq> [])"

text \<open>
  A \<open>Date\<close> by its UTC fields, and \<open>toISOString\<close>: four year digits for the years
  0 to 9999, a sign and six digits otherwise.
\<close>

record date =
  year :: int
  month :: nat
  day :: nat
  hours :: nat
  minutes :: nat
  seconds :: nat
  millis :: nat

definition toISOString :: "date \<Rightarrow> string" where
  "toISOString d =
     (if 0 \<le> year d \<and> year d \<le> 9999 then padStart 4 CHR ''0'' (show_int (year d))
      else (if year d < 0 then CHR ''-'' else CHR ''+'') # padStart 6 CHR ''0'' (show_nat (nat \<bar>year d\<bar>)))
     @ ''-'' @ padStart 2 CHR ''0'' (show_nat (month d))
     @ ''-'' @ padStart 2 CHR ''0'' (show_nat (day d))
     @ ''T'' @ padStart 2 CHR ''0'' (show_nat (hours d))
     @ '':'' @ padStart 2 CHR ''0'' (show_nat (minutes d))
     @ '':'' @ padStart 2 CHR ''0'' (show_nat (seconds d))
     @ ''.'' @ padStart 3 CHR ''0'' (show_nat (millis d)) @ ''Z''"

text \<open>
  JSON bodies as the handlers build them. An object is an association list, in the
  order of its keys; a timestamp is a number of milliseconds.
\<close>

datatype 'p json =
    JNull
  | JBool bool
  | JInt int
  | JFloat 'p
  | JStr string
  | JDate nat
  | JArr "'p json list"
  | JObj "(string \<times> 'p json) list"

type_synonym 'p response = "nat \<times> 'p json"

definition json_str_opt :: "string option \<Rightarrow> 'p json" where
  "json_str_opt x = (case x of None \<Rightarrow> JNull | Some s \<Rightarrow> JStr s)"

definition json_int_opt :: "int option \<Rightarrow> 'p json" where
  "json_int_opt x = (case x of None \<Rightarrow> JNull | Some i \<Rightarrow> JInt i)"

definition error_body :: "string \<Rightarrow> 'p json" where
  "error_body msg = JObj [(''error'', JStr msg)]"

text \<open>Rest destructuring \<open>const { k1, k2, ...rest } = obj\<close>: the object without the keys.\<close>

definition omit_keys :: "string list \<Rightarrow> (string \<times> 'p json) list \<Rightarrow> (string \<times> 'p json) list" where
  "omit_keys ks obj = filter (\<lambda>kv. fst kv \<notin> set ks) obj"

section \<open>The persisted schema\<close>

text \<open>
  The tables of the migration: \<open>Product\<close>, \<open>Order\<close>, \<open>OrderItem\<close> and \<open>User\<close>, each a list
  of rows in insertion order, and the \<open>SERIAL\<close> sequences the handlers draw new ids
  from. A nullable column is an \<open>option\<close>. \<open>Favorite\<close> and \<open>Admin\<close> are read by no handler
  modelled here.
\<close>

record 'p product =
  p_id :: int
  p_sku :: "string option"
  p_name :: string
  p_description :: "string option"
  p_brand :: "string option"
  p_type :: "string option"
  p_viscosity :: "string option"
  p_volume_ml :: "int option"
  p_application :: "string option"
  p_price :: 'p
  p_stock :: int
  p_images :: "string list"
  p_characteristics :: "'p json option"
  p_createdAt :: nat
  p_updatedAt :: nat

record address =
  city :: string
  street :: string
  house :: string
  apartment :: "string option"
  comment :: "string option"

record 'p order =
  o_id :: int
  o_orderNumber :: string
  o_userId :: "int option"
  o_contactName :: "string option"
  o_phone :: string
  o_email :: "string option"
  o_deliveryMethod :: "string option"
  o_deliveryAddress :: "address option"
  o_paymentMethod :: "string option"
  o_totalAmount :: 'p
  o_status :: string
  o_trackingNumber :: "string option"
  o_notes :: "string option"
  o_createdAt :: nat
  o_updatedAt :: nat

record 'p order_item =
  oi_id :: int
  oi_orderId :: int
  oi_productId :: int
  oi_quantity :: int
  oi_priceEach :: 'p

record user =
  u_id :: int
  u_email :: string
  u_phone :: "string option"
  u_name :: "string option"
  u_createdAt :: nat

record 'p db =
  products :: "'p product list"
  orders :: "'p order list"
  orderItems :: "'p order_item list"
  users :: "user list"
  product_seq :: int
  order_seq :: int
  item_seq :: int

section \<open>The ORM calls the handlers make\<close>

text \<open>
  Prisma is a library outside the repository; each call a handler makes is modelled by
  its documented effect on the tables. A failing call throws an error with a code:
  \<open>P2002\<close> a unique constraint, \<open>P2003\<close> a foreign key, \<open>P2025\<close> a missing row;
  \<open>Invalid\<close> is the client's refusal of an argument that is \<open>NaN\<close>.
\<close>

datatype prisma_error = P2002 | P2003 | P2025 | Invalid

text \<open>\<open>prisma.product.findMany({ where: { id: { in: ids } } })\<close>\<close>

definition product_findMany_in :: "'p db \<Rightarrow> int list \<Rightarrow> 'p product list" where
  "product_findMany_in d ids = filter (\<lambda>p. p_id p \<in> set ids) (products d)"

text \<open>\<open>prisma.product.update({ where: { id }, data: { stock } })\<close>; \<open>updatedAt\<close> follows the clock.\<close>

definition product_update_stock :: "nat \<Rightarrow> int \<Rightarrow> int \<Rightarrow> 'p db \<Rightarrow> prisma_error + 'p db" where
  "product_update_stock now pid s d =
     (if pid \<in> set (map p_id (products d))
      then Inr (d\<lparr>products :=
             map (\<lambda>p. if p_id p = pid then p\<lparr>p_stock := s, p_updatedAt := now\<rparr> else p) (products d)\<rparr>)
      else Inl P2025)"

text \<open>
  \<open>prisma.order.create\<close> with nested \<open>items: { create: [...] }\<close>: one \<open>Order\<close> row and one
  \<open>OrderItem\<close> row per line, with fresh ids. The order number and the tracking number
  are unique columns, \<open>userId\<close> and \<open>productId\<close> are foreign keys. The status takes the
  column default.
\<close>

record 'p order_data =
  d_orderNumber :: string
  d_trackingNumber :: string
  d_userId :: "int option"
  d_totalAmount :: 'p
  d_contactName :: string
  d_phone :: string
  d_email :: "string option"
  d_deliveryMethod :: string
  d_deliveryAddress :: "address option"
  d_paymentMethod :: string
  d_notes :: "string option"
  d_items :: "(int \<times> int \<times> 'p) list"

definition new_order :: "nat \<Rightarrow> int \<Rightarrow> 'p order_data \<Rightarrow> 'p order" where
  "new_order now oid x =
     \<lparr>o_id = oid, o_orderNumber = d_orderNumber x, o_userId = d_userId x,
      o_contactName = Some (d_contactName x), o_phone = d_phone x, o_email = d_email x,
      o_deliveryMethod = Some (d_deliveryMethod x), o_deliveryAddress = d_deliveryAddress x,
      o_paymentMethod = Some (d_paymentMethod x), o_totalAmount = d_totalAmount x,
      o_status = ''new'', o_trackingNumber = Some (d_trackingNumber x), o_notes = d_notes x,
      o_createdAt = now, o_updatedAt = now\<rparr>"

fun new_items :: "int \<Rightarrow> int \<Rightarrow> (int \<times> int \<times> 'p) list \<Rightarrow> 'p order_item list" where
  "new_items oid k [] = []"
| "new_items oid k ((pid, qty, price) # rest) =
     \<lparr>oi_id = k, oi_orderId = oid, oi_productId = pid, oi_quantity = qty, oi_priceEach = price\<rparr>
       # new_items oid (k + 1) rest"

definition order_create ::
  "nat \<Rightarrow> 'p order_data \<Rightarrow> 'p db \<Rightarrow> prisma_error + ('p order \<times> 'p order_item list \<times> 'p db)" where
  "order_create now x d =
     (if d_orderNumber x \<in> set (map o_orderNumber (orders d))
         \<or> Some (d_trackingNumber x) \<in> set (map o_trackingNumber (orders d))
      then Inl P2002
      else if (case d_userId x of None \<Rightarrow> False | Some u \<Rightarrow> u \<notin> set (map u_id (users d)))
      then Inl P2003
      else if list_ex (\<lambda>(pid, qty, price). pid \<notin> set (map p_id (products d))) (d_items x)
      then Inl P2003
      else Inr (new_order now (order_seq d) x,
                new_items (order_seq d) (item_seq d) (d_items x),
                d\<lparr>orders := orders d @ [new_order now (order_seq d) x],
                  orderItems := orderItems d @ new_items (order_seq d) (item_seq d) (d_items x),
                  order_seq := order_seq d + 1,
                  item_seq := item_seq d + int (length (d_items x))\<rparr>))"

text \<open>
  \<open>prisma.$transaction([create, ...stockUpdates])\<close>: the operations run in order inside
  one database transaction; when one fails, the error is thrown and the database is
  left as it was before the transaction (the model restores the id sequences as well,
  which a rolled-back transaction of the database would leave advanced). The value of
  the first operation is the created order with its items.
\<close>

fun run_updates :: "nat \<Rightarrow> (int \<times> int) list \<Rightarrow> 'p db \<Rightarrow> prisma_error + 'p db" where
  "run_updates now [] d = Inr d"
| "run_updates now ((pid, s) # rest) d =
     (case product_update_stock now pid s d of
        Inl e \<Rightarrow> Inl e
      | Inr d' \<Rightarrow> run_updates now rest d')"

definition transaction ::
  "nat \<Rightarrow> 'p order_data \<Rightarrow> (int \<times> int) list \<Rightarrow> 'p db
     \<Rightarrow> prisma_error + ('p order \<times> 'p order_item list \<times> 'p db)" where
  "transaction now x ups d =
     (case order_create now x d of
        Inl e \<Rightarrow> Inl e
      | Inr (ord, its, d1) \<Rightarrow>
          (case run_updates now ups d1 of
             Inl e \<Rightarrow> Inl e
           | Inr d2 \<Rightarrow> Inr (ord, its, d2)))"

text \<open>
  \<open>prisma.user.update({ where: { id }, data: { phone, name, email } })\<close>; an \<open>undefined\<close>
  email leaves the column as it is, and \<open>User.email\<close> is unique.
\<close>

definition user_update :: "int \<Rightarrow> string \<Rightarrow> string \<Rightarrow> string option \<Rightarrow> 'p db \<Rightarrow> prisma_error + 'p db" where
  "user_update uid ph nm em d =
     (if uid \<notin> set (map u_id (users d)) then Inl P2025
      else if (case em of None \<Rightarrow> False
               | Some e \<Rightarrow> list_ex (\<lambda>u. u_id u \<noteq> uid \<and> u_email u = e) (users d))
      then Inl P2002
      else Inr (d\<lparr>users :=
             map (\<lambda>u. if u_id u = uid
                       then u\<lparr>u_phone := Some ph, u_name := Some nm,
                              u_email := (case em of None \<Rightarrow> u_email u | Some e \<Rightarrow> e)\<rparr>
                       else u) (users d)\<rparr>))"

section \<open>The orders router\<close>

text \<open>
  What a request draws from outside the database: the two environment variables, the
  clock, and the two calls of \<open>Math.random()\<close>. The first call is only read through
  \<open>Math.floor(Math.random() * 10000)\<close> and the second only through
  \<open>Math.random().toString(36)\<close>; these two values are the fields \<open>random_floor\<close> and
  \<open>random_base36\<close>.
\<close>

record runtime =
  ORDER_PREFIX :: "string option"
  TRACKING_PREFIX :: "string option"
  now_date :: date
  random_floor :: nat
  random_base36 :: string
  db_now :: nat

definition generateOrderNumber :: "runtime \<Rightarrow> string" where
  "generateOrderNumber rt =
     (let datePart = replace_dashes (substring 2 10 (toISOString (now_date rt)));
          randomPart = padStart 4 CHR ''0'' (show_nat (random_floor rt))
      in or_default (ORDER_PREFIX rt) ''OM'' @ datePart @ randomPart)"

definition generateTrackingNumber :: "runtime \<Rightarrow> string" where
  "generateTrackingNumber rt =
     (let random = toUpperCase (substring 2 10 (random_base36 rt))
      in or_default (TRACKING_PREFIX rt) ''OIL'' @ random)"

text \<open>
  The body of \<open>POST /\<close> after \<open>orderSchema.validate\<close>. Joi is a library outside the
  repository: its verdict is the handler's input, either the message of the first
  violation or the validated value (with the defaults for \<open>deliveryMethod\<close> and
  \<open>paymentMethod\<close> filled in).
\<close>

record line_item =
  productId :: int
  quantity :: int

record order_value =
  contactName :: string
  phone :: string
  email :: "string option"
  deliveryMethod :: string
  deliveryAddress :: "address option"
  paymentMethod :: string
  items :: "line_item list"
  userId :: "int option"
  notes' :: "string option"

datatype 'a joi = JoiError string | JoiValue 'a

text \<open>
  The loop over the line items: the running total, the prepared stock updates (product
  id, new stock) and the prepared order items (product id, quantity, price each). A
  \<open>return res.status(...)\<close> inside the loop is \<open>Inl\<close>.
\<close>

type_synonym 'p prepared = "'p \<times> (int \<times> int) list \<times> (int \<times> int \<times> 'p) list"

fun check_items ::
  "'p arith \<Rightarrow> 'p product list \<Rightarrow> line_item list \<Rightarrow> 'p prepared \<Rightarrow> 'p response + 'p prepared" where
  "check_items ops ps [] acc = Inr acc"
| "check_items ops ps (item # rest) (totalAmount, stockUpdates, orderItems') =
     (case find (\<lambda>p. p_id p = productId item) ps of
        None \<Rightarrow> Inl (404, error_body (''Product '' @ show_int (productId item) @ '' not found''))
      | Some product \<Rightarrow>
          if p_stock product < quantity item
          then Inl (400, JObj [(''error'', JStr (''Insufficient stock for '' @ p_name product
                                  @ ''. Available: '' @ show_int (p_stock product))),
                               (''productId'', JInt (p_id product))])
          else check_items ops ps rest
                 (f_add ops totalAmount (f_mul ops (p_price product) (quantity item)),
                  stockUpdates @ [(p_id product, p_stock product - quantity item)],
                  orderItems' @ [(p_id product, quantity item, p_price product)]))"

definition prepare :: "'p::zero arith \<Rightarrow> order_value \<Rightarrow> 'p product list \<Rightarrow> 'p response + 'p prepared" where
  "prepare ops v ps =
     (if length ps \<noteq> length (items v) then Inl (404, error_body ''Some products not found'')
      else check_items ops ps (items v) (0, [], []))"

text \<open>\<open>userId || null\<close>, and the test \<open>if (userId)\<close>: zero is falsy.\<close>

definition userId_or_null :: "int option \<Rightarrow> int option" where
  "userId_or_null u = (case u of None \<Rightarrow> None | Some i \<Rightarrow> if i = 0 then None else Some i)"

definition order_data_of :: "runtime \<Rightarrow> order_value \<Rightarrow> 'p \<Rightarrow> (int \<times> int \<times> 'p) list \<Rightarrow> 'p order_data" where
  "order_data_of rt v amount ois =
     \<lparr>d_orderNumber = generateOrderNumber rt, d_trackingNumber = generateTrackingNumber rt,
      d_userId = userId_or_null (userId v), d_totalAmount = amount,
      d_contactName = contactName v, d_phone = phone v, d_email = email v,
      d_deliveryMethod = deliveryMethod v, d_deliveryAddress = deliveryAddress v,
      d_paymentMethod = paymentMethod v, d_notes = notes' v, d_items = ois\<rparr>"

text \<open>The items of the created order as \<open>include\<close> returns them, and the 201 body.\<close>

definition created_item_json :: "'p db \<Rightarrow> 'p order_item \<Rightarrow> 'p json" where
  "created_item_json d it =
     JObj [(''id'', JInt (oi_id it)), (''orderId'', JInt (oi_orderId it)),
           (''productId'', JInt (oi_productId it)), (''quantity'', JInt (oi_quantity it)),
           (''priceEach'', JFloat (oi_priceEach it)),
           (''product'',
              (case find (\<lambda>p. p_id p = oi_productId it) (products d) of
                 None \<Rightarrow> JNull
               | Some p \<Rightarrow> JObj [(''id'', JInt (p_id p)), (''name'', JStr (p_name p)),
                                 (''brand'', json_str_opt (p_brand p)),
                                 (''sku'', json_str_opt (p_sku p))]))]"

definition created_body :: "'p db \<Rightarrow> 'p order \<Rightarrow> 'p order_item list \<Rightarrow> 'p json" where
  "created_body d ord its =
     JObj [(''success'', JBool True),
           (''message'', JStr ''Order created successfully''),
           (''order'', JObj [(''id'', JInt (o_id ord)),
                             (''orderNumber'', JStr (o_orderNumber ord)),
                             (''trackingNumber'', json_str_opt (o_trackingNumber ord)),
                             (''totalAmount'', JFloat (o_totalAmount ord)),
                             (''status'', JStr (o_status ord)),
                             (''createdAt'', JDate (o_createdAt ord))]),
           (''items'', JArr (map (created_item_json d) its))]"

text \<open>
  The handler is an \<open>async\<close> function: it yields at \<open>await prisma.product.findMany\<close>
  and resumes with the fetched products, possibly after other requests have run.
  \<open>create_order_from\<close> is the handler from that point on, run against the database as
  it is when the transaction is issued; \<open>create_order\<close> is the whole handler when no
  other request runs in between. Every exception is caught by the handler's
  \<open>catch\<close> and answered with 500.
\<close>

definition refresh_user :: "order_value \<Rightarrow> 'p db \<Rightarrow> prisma_error + 'p db" where
  "refresh_user v d =
     (case userId_or_null (userId v) of
        None \<Rightarrow> Inr d
      | Some uid \<Rightarrow>
          user_update uid (phone v) (contactName v)
            (if truthy (email v) then email v else None) d)"

definition create_order_from ::
  "'p::zero arith \<Rightarrow> runtime \<Rightarrow> order_value \<Rightarrow> 'p product list \<Rightarrow> 'p db \<Rightarrow> 'p response \<times> 'p db" where
  "create_order_from ops rt v ps d =
     (case prepare ops v ps of
        Inl r \<Rightarrow> (r, d)
      | Inr (totalAmount, stockUpdates, orderItems') \<Rightarrow>
          (case transaction (db_now rt) (order_data_of rt v totalAmount orderItems') stockUpdates d of
             Inl e \<Rightarrow> ((500, error_body ''Server error creating order''), d)
           | Inr (ord, its, d1) \<Rightarrow>
               (case refresh_user v d1 of
                  Inl e \<Rightarrow> ((500, error_body ''Server error creating order''), d1)
                | Inr d2 \<Rightarrow> ((201, created_body d1 ord its), d2))))"

definition create_order ::
  "'p::zero arith \<Rightarrow> runtime \<Rightarrow> order_value joi \<Rightarrow> 'p db \<Rightarrow> 'p response \<times> 'p db" where
  "create_order ops rt body d =
     (case body of
        JoiError msg \<Rightarrow> ((400, error_body msg), d)
      | JoiValue v \<Rightarrow>
          create_order_from ops rt v (product_findMany_in d (map productId (items v))) d)"

text \<open>
  \<open>GET /track/:trackingNumber\<close>. The order is read with its items, each with the
  selected product columns; the response is the order object without the keys
  \<open>deliveryAddress\<close> and \<open>email\<close>.
\<close>

definition address_json :: "address \<Rightarrow> 'p json" where
  "address_json a =
     JObj ([(''city'', JStr (city a)), (''street'', JStr (street a)), (''house'', JStr (house a))]
           @ (case apartment a of None \<Rightarrow> [] | Some s \<Rightarrow> [(''apartment'', JStr s)])
           @ (case comment a of None \<Rightarrow> [] | Some s \<Rightarrow> [(''comment'', JStr s)]))"

definition tracked_item_json :: "'p db \<Rightarrow> 'p order_item \<Rightarrow> 'p json" where
  "tracked_item_json d it =
     JObj [(''id'', JInt (oi_id it)), (''orderId'', JInt (oi_orderId it)),
           (''productId'', JInt (oi_productId it)), (''quantity'', JInt (oi_quantity it)),
           (''priceEach'', JFloat (oi_priceEach it)),
           (''product'',
              (case find (\<lambda>p. p_id p = oi_productId it) (products d) of
                 None \<Rightarrow> JNull
               | Some p \<Rightarrow> JObj [(''id'', JInt (p_id p)), (''name'', JStr (p_name p)),
                                 (''brand'', json_str_opt (p_brand p)),
                                 (''images'', JArr (map JStr (p_images p))),
                                 (''type'', json_str_opt (p_type p)),
                                 (''viscosity'', json_str_opt (p_viscosity p))]))]"

definition order_fields :: "'p order \<Rightarrow> (string \<times> 'p json) list" where
  "order_fields ord =
     [(''id'', JInt (o_id ord)),
      (''orderNumber'', JStr (o_orderNumber ord)),
      (''userId'', json_int_opt (o_userId ord)),
      (''contactName'', json_str_opt (o_contactName ord)),
      (''phone'', JStr (o_phone ord)),
      (''email'', json_str_opt (o_email ord)),
      (''deliveryMethod'', json_str_opt (o_deliveryMethod ord)),
      (''deliveryAddress'', (case o_deliveryAddress ord of None \<Rightarrow> JNull | Some a \<Rightarrow> address_json a)),
      (''paymentMethod'', json_str_opt (o_paymentMethod ord)),
      (''totalAmount'', JFloat (o_totalAmount ord)),
      (''status'', JStr (o_status ord)),
      (''trackingNumber'', json_str_opt (o_trackingNumber ord)),
      (''notes'', json_str_opt (o_notes ord)),
      (''createdAt'', JDate (o_createdAt ord)),
      (''updatedAt'', JDate (o_updatedAt ord))]"

definition tracked_order :: "'p db \<Rightarrow> 'p order \<Rightarrow> (string \<times> 'p json) list" where
  "tracked_order d ord =
     order_fields ord
     @ [(''items'', JArr (map (tracked_item_json d)
                            (filter (\<lambda>it. oi_orderId it = o_id ord) (orderItems d))))]"

definition track :: "'p db \<Rightarrow> string \<Rightarrow> string option \<Rightarrow> 'p response" where
  "track d trackingNumber phone' =
     (if \<not> truthy phone' then (400, error_body ''Phone number is required'')
      else case find (\<lambda>ord. o_trackingNumber ord = Some trackingNumber) (orders d) of
             None \<Rightarrow> (404, error_body ''Order not found'')
           | Some ord \<Rightarrow>
               if Some (o_phone ord) \<noteq> phone'
               then (403, error_body ''Access denied. Phone number does not match.'')
               else (200, JObj (omit_keys [''deliveryAddress'', ''email''] (tracked_order d ord))))"

section \<open>Numbers parsed from the request\<close>

text \<open>
  \<open>parseInt(s)\<close> with no radix: leading white space is skipped, a sign is read, a
  \<open>0x\<close> prefix selects base 16, and the longest prefix of digits is the value; with
  no digit the result is \<open>NaN\<close>. The value is an integer here (a double in the source:
  exact below \<open>2^53\<close>).
\<close>

datatype 'a jsnum = NaN | Num 'a

definition is_space :: "char \<Rightarrow> bool" where
  "is_space c = (c \<in> set [CHR '' '', CHR 0x09, CHR 0x0A, CHR 0x0B, CHR 0x0C, CHR 0x0D])"

definition digit_value :: "char \<Rightarrow> nat option" where
  "digit_value c =
     map_of (zip ''0123456789abcdefghijklmnopqrstuvwxyz'' [0 ..< 36]
             @ zip ''ABCDEFGHIJKLMNOPQRSTUVWXYZ'' [10 ..< 36]) c"

definition is_digit :: "nat \<Rightarrow> char \<Rightarrow> bool" where
  "is_digit radix c = (case digit_value c of None \<Rightarrow> False | Some v \<Rightarrow> v < radix)"

definition digits_value :: "nat \<Rightarrow> string \<Rightarrow> int" where
  "digits_value radix ds =
     foldl (\<lambda>a c. a * int radix + int (case digit_value c of None \<Rightarrow> 0 | Some v \<Rightarrow> v)) 0 ds"

definition parseInt :: "string \<Rightarrow> int jsnum" where
  "parseInt s =
     (let s1 = dropWhile is_space s;
          neg = (take 1 s1 = ''-'');
          s2 = (if take 1 s1 = ''-'' \<or> take 1 s1 = ''+'' then drop 1 s1 else s1);
          hex = (take 2 s2 = ''0x'' \<or> take 2 s2 = ''0X'');
          radix = (if hex then 16 else 10);
          s3 = (if hex then drop 2 s2 else s2);
          ds = takeWhile (is_digit radix) s3
      in if ds = [] then NaN
         else Num ((if neg then - 1 else 1) * digits_value radix ds))"

definition js_sub :: "int jsnum \<Rightarrow> int jsnum \<Rightarrow> int jsnum" where
  "js_sub a b = (case (a, b) of (Num x, Num y) \<Rightarrow> Num (x - y) | _ \<Rightarrow> NaN)"

definition js_mul :: "int jsnum \<Rightarrow> int jsnum \<Rightarrow> int jsnum" where
  "js_mul a b = (case (a, b) of (Num x, Num y) \<Rightarrow> Num (x * y) | _ \<Rightarrow> NaN)"

text \<open>\<open>res.json\<close> writes \<open>NaN\<close> and the infinities as \<open>null\<close>.\<close>

definition json_num :: "int jsnum \<Rightarrow> 'p json" where
  "json_num n = (case n of NaN \<Rightarrow> JNull | Num i \<Rightarrow> JInt i)"

text \<open>\<open>Math.ceil(total / limitInt)\<close>, as \<open>res.json\<close> writes it.\<close>

definition pages_json :: "nat \<Rightarrow> int jsnum \<Rightarrow> 'p json" where
  "pages_json total' lim =
     (case lim of
        NaN \<Rightarrow> JNull
      | Num l \<Rightarrow> if l = 0 then JNull else JInt (- ((- int total') div l)))"

section \<open>The products router: the catalog query\<close>

text \<open>
  The query string of \<open>GET /\<close>: every parameter is an optional string. \<open>page\<close> and
  \<open>limit\<close> default to the numbers 1 and 12, \<open>sortBy\<close> and \<open>sortOrder\<close> to
  \<open>createdAt\<close> and \<open>desc\<close>, when the parameter is \<open>undefined\<close>.
\<close>

record catalog_query =
  q_q :: "string option"
  q_type :: "string option"
  q_viscosity :: "string option"
  q_brand :: "string option"
  q_volume :: "string option"
  q_application :: "string option"
  q_minPrice :: "string option"
  q_maxPrice :: "string option"
  q_inStock :: "string option"
  q_sortBy :: "string option"
  q_sortOrder :: "string option"
  q_page :: "string option"
  q_limit :: "string option"




text \<open>The \<open>where\<close> object: a field is \<open>None\<close> when the handler does not set it.\<close>

datatype stock_filter = StockGt0 | StockEq0

record 'p price_filter =
  gte :: "'p jsnum option"
  lte :: "'p jsnum option"

record 'p where_clause =
  w_OR_contains :: "string option"
  w_type :: "string option"
  w_viscosity :: "string option"
  w_brand :: "string option"
  w_volume_ml :: "int jsnum option"
  w_application :: "string option"
  w_price :: "'p price_filter option"
  w_stock :: "stock_filter option"

definition if_truthy :: "string option \<Rightarrow> (string \<Rightarrow> 'a) \<Rightarrow> 'a option" where
  "if_truthy x f = (case x of None \<Rightarrow> None | Some s \<Rightarrow> if s = [] then None else Some (f s))"

definition parseFloat :: "'p arith \<Rightarrow> string \<Rightarrow> 'p jsnum" where
  "parseFloat ops s = (case f_parse ops s of None \<Rightarrow> NaN | Some x \<Rightarrow> Num x)"

definition build_where :: "'p arith \<Rightarrow> catalog_query \<Rightarrow> 'p where_clause" where
  "build_where ops q =
     \<lparr>w_OR_contains = if_truthy (q_q q) id,
      w_type = if_truthy (q_type q) id,
      w_viscosity = if_truthy (q_viscosity q) id,
      w_brand = if_truthy (q_brand q) id,
      w_volume_ml = if_truthy (q_volume q) parseInt,
      w_application = if_truthy (q_application q) id,
      w_price = (if truthy (q_minPrice q) \<or> truthy (q_maxPrice q)
                 then Some \<lparr>gte = if_truthy (q_minPrice q) (parseFloat ops),
                            lte = if_truthy (q_maxPrice q) (parseFloat ops)\<rparr>
                 else None),
      w_stock = (if q_inStock q = Some ''true'' then Some StockGt0
                 else if q_inStock q = Some ''false'' then Some StockEq0
                 else None)\<rparr>"



text \<open>
  The third query of the \<open>Promise.all\<close>: the rows the facet lists are read from,
  \<open>where: inStock === 'true' ? { stock: { gt: 0 } } : {}\<close>.
\<close>

definition filterOptions :: "'p db \<Rightarrow> catalog_query \<Rightarrow> 'p product list" where
  "filterOptions d q =
     (if q_inStock q = Some ''true'' then filter (\<lambda>p. p_stock p > 0) (products d)
      else products d)"

text \<open>
  \<open>[...new Set(xs.filter(Boolean))]\<close>: \<open>null\<close> and the empty string (for a number,
  zero) are dropped, and a \<open>Set\<close> keeps the first occurrence of each value.
\<close>

fun uniq :: "'a list \<Rightarrow> 'a list" where
  "uniq [] = []"
| "uniq (x # xs) = x # filter (\<lambda>y. y \<noteq> x) (uniq xs)"

definition truthy_strings :: "string option list \<Rightarrow> string list" where
  "truthy_strings xs = List.map_filter (\<lambda>x. case x of None \<Rightarrow> None | Some s \<Rightarrow> if s = [] then None else Some s) xs"

definition truthy_ints :: "int option list \<Rightarrow> int list" where
  "truthy_ints xs = List.map_filter (\<lambda>x. case x of None \<Rightarrow> None | Some i \<Rightarrow> if i = 0 then None else Some i) xs"

definition string_facet :: "('p product \<Rightarrow> string option) \<Rightarrow> 'p product list \<Rightarrow> string list" where
  "string_facet col rows = sort (uniq (truthy_strings (map col rows)))"

definition volume_facet :: "'p product list \<Rightarrow> int list" where
  "volume_facet rows = sort (uniq (truthy_ints (map p_volume_ml rows)))"

text \<open>
  \<open>prisma.product.aggregate({ _min: { price: true } })\<close> over the whole table, and
  \<open>r._min.price || 0\<close>: \<open>null\<close> (no row) and zero give zero.
\<close>

definition aggregate_min :: "'p::linorder product list \<Rightarrow> 'p option" where
  "aggregate_min rows = (case rows of [] \<Rightarrow> None | p # ps \<Rightarrow> Some (fold min (map p_price ps) (p_price p)))"

definition aggregate_max :: "'p::linorder product list \<Rightarrow> 'p option" where
  "aggregate_max rows = (case rows of [] \<Rightarrow> None | p # ps \<Rightarrow> Some (fold max (map p_price ps) (p_price p)))"

definition or_zero :: "'p::zero option \<Rightarrow> 'p" where
  "or_zero x = (case x of None \<Rightarrow> 0 | Some v \<Rightarrow> if v = 0 then 0 else v)"

record 'p filters =
  brands :: "string list"
  types :: "string list"
  viscosities :: "string list"
  applications :: "string list"
  volumes :: "int list"
  priceRange_min :: 'p
  priceRange_max :: 'p

definition catalog_filters :: "'p::{linorder,zero} db \<Rightarrow> catalog_query \<Rightarrow> 'p filters" where
  "catalog_filters d q =
     \<lparr>brands = string_facet p_brand (filterOptions d q),
      types = string_facet p_type (filterOptions d q),
      viscosities = string_facet p_viscosity (filterOptions d q),
      applications = string_facet p_application (filterOptions d q),
      volumes = volume_facet (filterOptions d q),
      priceRange_min = or_zero (aggregate_min (products d)),
      priceRange_max = or_zero (aggregate_max (products d))\<rparr>"



definition product_json :: "'p product \<Rightarrow> 'p json" where
  "product_json p =
     JObj [(''id'', JInt (p_id p)), (''sku'', json_str_opt (p_sku p)), (''name'', JStr (p_name p)),
           (''description'', json_str_opt (p_description p)),
           (''brand'', json_str_opt (p_brand p)), (''type'', json_str_opt (p_type p)),
           (''viscosity'', json_str_opt (p_viscosity p)),
           (''volume_ml'', json_int_opt (p_volume_ml p)),
           (''application'', json_str_opt (p_application p)),
           (''price'', JFloat (p_price p)), (''stock'', JInt (p_stock p)),
           (''images'', JArr (map JStr (p_images p))),
           (''characteristics'', (case p_characteristics p of None \<Rightarrow> JNull | Some j \<Rightarrow> j)),
           (''createdAt'', JDate (p_createdAt p)), (''updatedAt'', JDate (p_updatedAt p))]"



section \<open>The admin router\<close>

text \<open>
  A request as the admin handlers read it: the session (\<open>req.session.adminId\<close> and
  \<open>req.session.adminRole\<close>, set by a login), the \<open>:id\<close> parameter and the body. A
  middleware receives the request and the continuation \<open>next\<close>.
\<close>

record session =
  adminId :: "int option"
  adminRole :: "string option"

record 'b request =
  session_of :: session
  param_id :: string
  body_of :: 'b

definition requireAdmin :: "'b request \<Rightarrow> ('b request \<Rightarrow> 'r) \<Rightarrow> 'r" where
  "requireAdmin req next' = next' req"

text \<open>
  \<open>PUT /products/:id\<close>: the validated body replaces the columns it names
  (\<open>data: value\<close>); \<open>Product.sku\<close> is unique.
\<close>

record 'p product_value =
  pv_sku :: "string option"
  pv_name :: string
  pv_description :: "string option"
  pv_brand :: string
  pv_type :: string
  pv_viscosity :: string
  pv_volume_ml :: int
  pv_application :: string
  pv_price :: 'p
  pv_stock :: int
  pv_images :: "string list option"
  pv_characteristics :: "'p json option"

definition apply_product_value :: "nat \<Rightarrow> 'p product_value \<Rightarrow> 'p product \<Rightarrow> 'p product" where
  "apply_product_value now v p =
     p\<lparr>p_sku := (case pv_sku v of None \<Rightarrow> p_sku p | Some s \<Rightarrow> Some s),
       p_name := pv_name v,
       p_description := (case pv_description v of None \<Rightarrow> p_description p | Some s \<Rightarrow> Some s),
       p_brand := Some (pv_brand v), p_type := Some (pv_type v),
       p_viscosity := Some (pv_viscosity v), p_volume_ml := Some (pv_volume_ml v),
       p_application := Some (pv_application v), p_price := pv_price v, p_stock := pv_stock v,
       p_images := (case pv_images v of None \<Rightarrow> p_images p | Some xs \<Rightarrow> xs),
       p_characteristics := (case pv_characteristics v of None \<Rightarrow> p_characteristics p | Some j \<Rightarrow> Some j),
       p_updatedAt := now\<rparr>"

definition product_update ::
  "nat \<Rightarrow> int jsnum \<Rightarrow> 'p product_value \<Rightarrow> 'p db \<Rightarrow> prisma_error + ('p product \<times> 'p db)" where
  "product_update now pid v d =
     (case pid of
        NaN \<Rightarrow> Inl Invalid
      | Num i \<Rightarrow>
          (case find (\<lambda>p. p_id p = i) (products d) of
             None \<Rightarrow> Inl P2025
           | Some p \<Rightarrow>
               if (case pv_sku v of None \<Rightarrow> False
                   | Some s \<Rightarrow> list_ex (\<lambda>p'. p_id p' \<noteq> i \<and> p_sku p' = Some s) (products d))
               then Inl P2002
               else Inr (apply_product_value now v p,
                         d\<lparr>products := map (\<lambda>p'. if p_id p' = i then apply_product_value now v p' else p')
                                          (products d)\<rparr>)))"

definition admin_put_product ::
  "nat \<Rightarrow> 'p product_value joi request \<Rightarrow> 'p db \<Rightarrow> 'p response \<times> 'p db" where
  "admin_put_product now req d =
     (let pid = parseInt (param_id req)
      in case body_of req of
           JoiError msg \<Rightarrow> ((400, error_body msg), d)
         | JoiValue v \<Rightarrow>
             (case product_update now pid v d of
                Inl e \<Rightarrow> (if e = P2025 then ((404, error_body ''Product not found''), d)
                          else ((500, error_body ''Server error''), d))
              | Inr (p, d') \<Rightarrow> ((200, product_json p), d')))"

text \<open>
  \<open>DELETE /products/:id\<close>: refused while an order item references the product.
\<close>

definition admin_delete_product :: "unit request \<Rightarrow> 'p db \<Rightarrow> 'p response \<times> 'p db" where
  "admin_delete_product req d =
     (case parseInt (param_id req) of
        NaN \<Rightarrow> ((500, error_body ''Server error''), d)
      | Num i \<Rightarrow>
          (let n = length (filter (\<lambda>it. oi_productId it = i) (orderItems d))
           in if n > 0
              then ((400, JObj [(''error'', JStr ''Cannot delete product that is associated with orders''),
                                (''orderItems'', JInt (int n))]), d)
              else if i \<in> set (map p_id (products d))
              then ((200, JObj [(''message'', JStr ''Product deleted successfully'')]),
                    d\<lparr>products := filter (\<lambda>p. p_id p \<noteq> i) (products d)\<rparr>)
              else ((404, error_body ''Product not found''), d)))"

text \<open>
  \<open>PUT /orders/:id\<close>: the body is read without a schema; a truthy \<open>status\<close> must be
  one of the five states; \<open>Order.trackingNumber\<close> is unique. The updated order is
  returned with the email and name of its user.
\<close>

record order_patch =
  status :: "string option"
  trackingNumber :: "string option"
  notes_of :: "string option"

definition apply_order_patch :: "nat \<Rightarrow> order_patch \<Rightarrow> 'p order \<Rightarrow> 'p order" where
  "apply_order_patch now b ord =
     ord\<lparr>o_status := (if truthy (status b) then the (status b) else o_status ord),
         o_trackingNumber := (if truthy (trackingNumber b) then trackingNumber b else o_trackingNumber ord),
         o_notes := (case notes_of b of None \<Rightarrow> o_notes ord | Some n \<Rightarrow> Some n),
         o_updatedAt := now\<rparr>"

definition order_update ::
  "nat \<Rightarrow> int jsnum \<Rightarrow> order_patch \<Rightarrow> 'p db \<Rightarrow> prisma_error + ('p order \<times> 'p db)" where
  "order_update now oid b d =
     (case oid of
        NaN \<Rightarrow> Inl Invalid
      | Num i \<Rightarrow>
          (case find (\<lambda>ord. o_id ord = i) (orders d) of
             None \<Rightarrow> Inl P2025
           | Some ord \<Rightarrow>
               if truthy (trackingNumber b)
                  \<and> list_ex (\<lambda>ord'. o_id ord' \<noteq> i \<and> o_trackingNumber ord' = trackingNumber b) (orders d)
               then Inl P2002
               else Inr (apply_order_patch now b ord,
                         d\<lparr>orders := map (\<lambda>ord'. if o_id ord' = i then apply_order_patch now b ord' else ord')
                                        (orders d)\<rparr>)))"

definition order_user_json :: "'p db \<Rightarrow> 'p order \<Rightarrow> 'p json" where
  "order_user_json d ord =
     (case o_userId ord of
        None \<Rightarrow> JNull
      | Some uid \<Rightarrow>
          (case find (\<lambda>u. u_id u = uid) (users d) of
             None \<Rightarrow> JNull
           | Some u \<Rightarrow> JObj [(''email'', JStr (u_email u)), (''name'', json_str_opt (u_name u))]))"

definition admin_put_order :: "nat \<Rightarrow> order_patch request \<Rightarrow> 'p db \<Rightarrow> 'p response \<times> 'p db" where
  "admin_put_order now req d =
     (let oid = parseInt (param_id req); b = body_of req
      in if truthy (status b)
            \<and> the (status b) \<notin> set [''new'', ''processing'', ''shipped'', ''delivered'', ''cancelled'']
         then ((400, error_body ''Invalid status''), d)
         else case order_update now oid b d of
                Inl e \<Rightarrow> (if e = P2025 then ((404, error_body ''Order not found''), d)
                          else ((500, error_body ''Server error''), d))
              | Inr (ord, d') \<Rightarrow>
                  ((200, JObj (order_fields ord @ [(''user'', order_user_json d' ord)])), d'))"

text \<open>
  \<open>POST /logout\<close>: the session is destroyed; the error the session store may pass to
  the callback is the parameter.
\<close>

definition admin_logout :: "bool \<Rightarrow> unit request \<Rightarrow> 'p db \<Rightarrow> 'p response \<times> 'p db" where
  "admin_logout destroy_failed req d =
     (if destroy_failed then ((500, error_body ''Logout failed''), d)
      else ((200, JObj [(''message'', JStr ''Logout successful'')]), d))"

text \<open>
  \<open>GET /stats\<close>: five reads in one \<open>Promise.all\<close>, none of which depends on the
  request. Their results (or the exception) are the parameter; the revenue is
  \<open>totalRevenue._sum.totalAmount || 0\<close>.
\<close>

record 'p stats_reads =
  totalProducts :: nat
  totalOrders :: nat
  sum_totalAmount :: "'p option"
  lowStockProducts :: nat
  recentOrders :: "'p json list"

definition admin_stats ::
  "(prisma_error + 'p::zero stats_reads) \<Rightarrow> unit request \<Rightarrow> 'p db \<Rightarrow> 'p response \<times> 'p db" where
  "admin_stats reads req d =
     (case reads of
        Inl e \<Rightarrow> ((500, error_body ''Server error''), d)
      | Inr r \<Rightarrow>
          ((200, JObj [(''stats'', JObj [(''totalProducts'', JInt (int (totalProducts r))),
                                       (''totalOrders'', JInt (int (totalOrders r))),
                                       (''totalRevenue'', JFloat (or_zero (sum_totalAmount r))),
                                       (''lowStockProducts'', JInt (int (lowStockProducts r)))]),
                       (''recentOrders'', JArr (recentOrders r))]), d))"

text \<open>
  \<open>GET /products\<close> of the admin router: page and limit default to 1 and 20, the sort
  column and direction are passed on as given. The rows and the count come from the
  ORM, as for the public catalog.
\<close>

record admin_products_query =
  ap_page :: "string option"
  ap_limit :: "string option"
  ap_sortBy :: "string option"
  ap_sortOrder :: "string option"
  ap_search :: "string option"
  ap_brand :: "string option"
  ap_type :: "string option"

record admin_products_where =
  apw_OR_contains :: "string option"
  apw_brand :: "string option"
  apw_type :: "string option"

record admin_products_args =
  apa_where :: admin_products_where
  apa_skip :: "int jsnum"
  apa_take :: "int jsnum"
  apa_orderBy :: "string \<times> string"

definition admin_products_args_of :: "admin_products_query \<Rightarrow> admin_products_args" where
  "admin_products_args_of q =
     (let pageInt' = (case ap_page q of None \<Rightarrow> Num 1 | Some s \<Rightarrow> parseInt s);
          limitInt' = (case ap_limit q of None \<Rightarrow> Num 20 | Some s \<Rightarrow> parseInt s)
      in \<lparr>apa_where = \<lparr>apw_OR_contains = if_truthy (ap_search q) id,
                        apw_brand = if_truthy (ap_brand q) id,
                        apw_type = if_truthy (ap_type q) id\<rparr>,
          apa_skip = js_mul (js_sub pageInt' (Num 1)) limitInt',
          apa_take = limitInt',
          apa_orderBy = (case ap_sortBy q of None \<Rightarrow> ''createdAt'' | Some c \<Rightarrow> c,
                         case ap_sortOrder q of None \<Rightarrow> ''desc'' | Some o' \<Rightarrow> o')\<rparr>)"

definition admin_get_products ::
  "(admin_products_args \<Rightarrow> prisma_error + 'p product list) \<Rightarrow> (admin_products_where \<Rightarrow> prisma_error + nat)
     \<Rightarrow> admin_products_query request \<Rightarrow> 'p db \<Rightarrow> 'p response \<times> 'p db" where
  "admin_get_products findMany count' req d =
     (let args = admin_products_args_of (body_of req)
      in case findMany args of
           Inl e \<Rightarrow> ((500, error_body ''Server error''), d)
         | Inr rows \<Rightarrow>
             (case count' (apa_where args) of
                Inl e \<Rightarrow> ((500, error_body ''Server error''), d)
              | Inr n \<Rightarrow>
                  ((200, JObj [(''data'', JArr (map product_json rows)),
                               (''meta'', JObj [(''page'', json_num (case ap_page (body_of req) of
                                                                       None \<Rightarrow> Num 1 | Some s \<Rightarrow> parseInt s)),
                                                (''limit'', json_num (apa_take args)),
                                                (''total'', JInt (int n)),
                                                (''pages'', pages_json n (apa_take args))])]), d)))"

text \<open>\<open>GET /products/:id\<close> of the admin router.\<close>

definition admin_get_product :: "unit request \<Rightarrow> 'p db \<Rightarrow> 'p response \<times> 'p db" where
  "admin_get_product req d =
     (case parseInt (param_id req) of
        NaN \<Rightarrow> ((500, error_body ''Server error''), d)
      | Num i \<Rightarrow>
          (case find (\<lambda>p. p_id p = i) (products d) of
             None \<Rightarrow> ((404, error_body ''Product not found''), d)
           | Some p \<Rightarrow> ((200, product_json p), d)))"

text \<open>
  \<open>POST /products\<close>: a missing SKU is generated from the brand and the last six
  digits of \<open>Date.now()\<close>; a duplicate SKU is answered 409.
\<close>

definition generated_sku :: "nat \<Rightarrow> string \<Rightarrow> string" where
  "generated_sku date_now brand =
     ''OIL-'' @ toUpperCase (substring 0 3 brand) @ ''-''
     @ (let s = show_nat date_now in drop (length s - 6) s)"

definition product_create ::
  "nat \<Rightarrow> string \<Rightarrow> 'p product_value \<Rightarrow> 'p db \<Rightarrow> prisma_error + ('p product \<times> 'p db)" where
  "product_create now sku v d =
     (if list_ex (\<lambda>p. p_sku p = Some sku) (products d) then Inl P2002
      else (let p = \<lparr>p_id = product_seq d, p_sku = Some sku, p_name = pv_name v,
                      p_description = pv_description v, p_brand = Some (pv_brand v),
                      p_type = Some (pv_type v), p_viscosity = Some (pv_viscosity v),
                      p_volume_ml = Some (pv_volume_ml v), p_application = Some (pv_application v),
                      p_price = pv_price v, p_stock = pv_stock v,
                      p_images = (case pv_images v of None \<Rightarrow> [] | Some xs \<Rightarrow> xs),
                      p_characteristics = pv_characteristics v,
                      p_createdAt = now, p_updatedAt = now\<rparr>
            in Inr (p, d\<lparr>products := products d @ [p], product_seq := product_seq d + 1\<rparr>)))"

definition admin_post_product ::
  "nat \<Rightarrow> nat \<Rightarrow> 'p product_value joi request \<Rightarrow> 'p db \<Rightarrow> 'p response \<times> 'p db" where
  "admin_post_product now date_now req d =
     (case body_of req of
        JoiError msg \<Rightarrow> ((400, error_body msg), d)
      | JoiValue v \<Rightarrow>
          (let sku = (if truthy (pv_sku v) then the (pv_sku v) else generated_sku date_now (pv_brand v))
           in case product_create now sku v d of
                Inl e \<Rightarrow> (if e = P2002 then ((409, error_body ''SKU already exists''), d)
                          else ((500, error_body ''Server error''), d))
              | Inr (p, d') \<Rightarrow> ((201, product_json p), d')))"

text \<open>
  \<open>GET /orders\<close> of the admin router. A date bound is kept as the string handed to
  \<open>new Date\<close>; the rows (orders with their items and user) and the count come from
  the ORM.
\<close>

record admin_orders_query =
  ao_page :: "string option"
  ao_limit :: "string option"
  ao_status :: "string option"
  ao_startDate :: "string option"
  ao_endDate :: "string option"
  ao_search :: "string option"

record date_filter =
  df_gte :: "string option"
  df_lte :: "string option"

record admin_orders_where =
  aow_status :: "string option"
  aow_createdAt :: "date_filter option"
  aow_OR_contains :: "string option"

record admin_orders_args =
  aoa_where :: admin_orders_where
  aoa_skip :: "int jsnum"
  aoa_take :: "int jsnum"

definition admin_orders_args_of :: "admin_orders_query \<Rightarrow> admin_orders_args" where
  "admin_orders_args_of q =
     (let pageInt' = (case ao_page q of None \<Rightarrow> Num 1 | Some s \<Rightarrow> parseInt s);
          limitInt' = (case ao_limit q of None \<Rightarrow> Num 20 | Some s \<Rightarrow> parseInt s)
      in \<lparr>aoa_where =
            \<lparr>aow_status = if_truthy (ao_status q) id,
             aow_createdAt = (if truthy (ao_startDate q) \<or> truthy (ao_endDate q)
                              then Some \<lparr>df_gte = if_truthy (ao_startDate q) id,
                                         df_lte = if_truthy (ao_endDate q) id\<rparr>
                              else None),
             aow_OR_contains = if_truthy (ao_search q) id\<rparr>,
          aoa_skip = js_mul (js_sub pageInt' (Num 1)) limitInt',
          aoa_take = limitInt'\<rparr>)"

definition admin_get_orders ::
  "(admin_orders_args \<Rightarrow> prisma_error + 'p json list) \<Rightarrow> (admin_orders_where \<Rightarrow> prisma_error + nat)
     \<Rightarrow> admin_orders_query request \<Rightarrow> 'p db \<Rightarrow> 'p response \<times> 'p db" where
  "admin_get_orders findMany count' req d =
     (let args = admin_orders_args_of (body_of req)
      in case findMany args of
           Inl e \<Rightarrow> ((500, error_body ''Server error''), d)
         | Inr rows \<Rightarrow>
             (case count' (aoa_where args) of
                Inl e \<Rightarrow> ((500, error_body ''Server error''), d)
              | Inr n \<Rightarrow>
                  ((200, JObj [(''data'', JArr rows),
                               (''meta'', JObj [(''page'', json_num (case ao_page (body_of req) of
                                                                       None \<Rightarrow> Num 1 | Some s \<Rightarrow> parseInt s)),
                                                (''limit'', json_num (aoa_take args)),
                                                (''total'', JInt (int n)),
                                                (''pages'', pages_json n (aoa_take args))])]), d)))"

text \<open>
  \<open>GET /orders/:id\<close> of the admin router: the order with its items (each with the
  selected product columns) and the selected columns of its user.
\<close>

definition admin_item_json :: "'p db \<Rightarrow> 'p order_item \<Rightarrow> 'p json" where
  "admin_item_json d it =
     JObj [(''id'', JInt (oi_id it)), (''orderId'', JInt (oi_orderId it)),
           (''productId'', JInt (oi_productId it)), (''quantity'', JInt (oi_quantity it)),
           (''priceEach'', JFloat (oi_priceEach it)),
           (''product'',
              (case find (\<lambda>p. p_id p = oi_productId it) (products d) of
                 None \<Rightarrow> JNull
               | Some p \<Rightarrow> JObj [(''id'', JInt (p_id p)), (''name'', JStr (p_name p)),
                                 (''brand'', json_str_opt (p_brand p)),
                                 (''sku'', json_str_opt (p_sku p)),
                                 (''price'', JFloat (p_price p)),
                                 (''images'', JArr (map JStr (p_images p)))]))]"

definition admin_order_user_json :: "'p db \<Rightarrow> 'p order \<Rightarrow> 'p json" where
  "admin_order_user_json d ord =
     (case o_userId ord of
        None \<Rightarrow> JNull
      | Some uid \<Rightarrow>
          (case find (\<lambda>u. u_id u = uid) (users d) of
             None \<Rightarrow> JNull
           | Some u \<Rightarrow> JObj [(''id'', JInt (u_id u)), (''email'', JStr (u_email u)),
                             (''name'', json_str_opt (u_name u)),
                             (''phone'', json_str_opt (u_phone u))]))"

definition admin_get_order :: "unit request \<Rightarrow> 'p db \<Rightarrow> 'p response \<times> 'p db" where
  "admin_get_order req d =
     (case parseInt (param_id req) of
        NaN \<Rightarrow> ((500, error_body ''Server error''), d)
      | Num i \<Rightarrow>
          (case find (\<lambda>ord. o_id ord = i) (orders d) of
             None \<Rightarrow> ((404, error_body ''Order not found''), d)
           | Some ord \<Rightarrow>
               ((200, JObj (order_fields ord
                            @ [(''items'', JArr (map (admin_item_json d)
                                                   (filter (\<lambda>it. oi_orderId it = o_id ord) (orderItems d)))),
                               (''user'', admin_order_user_json d ord)])), d)))"

text \<open>
  The routes of the admin router that are registered behind the guard, each as
  \<open>router.METHOD(path, requireAdmin, handler)\<close>.
\<close>

definition logout_route :: "bool \<Rightarrow> unit request \<Rightarrow> 'p db \<Rightarrow> 'p response \<times> 'p db" where
  "logout_route destroy_failed req = requireAdmin req (admin_logout destroy_failed)"

definition stats_route ::
  "(prisma_error + 'p::zero stats_reads) \<Rightarrow> unit request \<Rightarrow> 'p db \<Rightarrow> 'p response \<times> 'p db" where
  "stats_route reads req = requireAdmin req (admin_stats reads)"

definition get_products_route ::
  "(admin_products_args \<Rightarrow> prisma_error + 'p product list) \<Rightarrow> (admin_products_where \<Rightarrow> prisma_error + nat)
     \<Rightarrow> admin_products_query request \<Rightarrow> 'p db \<Rightarrow> 'p response \<times> 'p db" where
  "get_products_route findMany count' req = requireAdmin req (admin_get_products findMany count')"

definition get_product_route :: "unit request \<Rightarrow> 'p db \<Rightarrow> 'p response \<times> 'p db" where
  "get_product_route req = requireAdmin req admin_get_product"

definition post_product_route ::
  "nat \<Rightarrow> nat \<Rightarrow> 'p product_value joi request \<Rightarrow> 'p db \<Rightarrow> 'p response \<times> 'p db" where
  "post_product_route now date_now req = requireAdmin req (admin_post_product now date_now)"

definition put_product_route ::
  "nat \<Rightarrow> 'p product_value joi request \<Rightarrow> 'p db \<Rightarrow> 'p response \<times> 'p db" where
  "put_product_route now req = requireAdmin req (admin_put_product now)"

definition delete_product_route :: "unit request \<Rightarrow> 'p db \<Rightarrow> 'p response \<times> 'p db" where
  "delete_product_route req = requireAdmin req admin_delete_product"

definition get_orders_route ::
  "(admin_orders_args \<Rightarrow> prisma_error + 'p json list) \<Rightarrow> (admin_orders_where \<Rightarrow> prisma_error + nat)
     \<Rightarrow> admin_orders_query request \<Rightarrow> 'p db \<Rightarrow> 'p response \<times> 'p db" where
  "get_orders_route findMany count' req = requireAdmin req (admin_get_orders findMany count')"

definition get_order_route :: "unit request \<Rightarrow> 'p db \<Rightarrow> 'p response \<times> 'p db" where
  "get_order_route req = requireAdmin req admin_get_order"

definition put_order_route :: "nat \<Rightarrow> order_patch request \<Rightarrow> 'p db \<Rightarrow> 'p response \<times> 'p db" where
  "put_order_route now req = requireAdmin req (admin_put_order now)"

section \<open>Reference notions and example data\<close>

text \<open>The product a line item refers to, as the table holds it now.\<close>

definition current_product :: "'p db \<Rightarrow> int \<Rightarrow> 'p product option" where
  "current_product d pid = find (\<lambda>p. p_id p = pid) (products d)"


text \<open>
  A small shop used to run the handlers: prices in whole roubles, two products (the
  second out of stock) and two users.
\<close>

definition ex_ops :: "int arith" where
  "ex_ops = \<lparr>f_add = (\<lambda>a b. a + b), f_mul = (\<lambda>a n. a * n), f_parse = (\<lambda>s. None)\<rparr>"

definition ex_date :: date where
  "ex_date = \<lparr>year = 2026, month = 11, day = 3, hours = 9, minutes = 30, seconds = 0, millis = 0\<rparr>"

definition ex_rt :: runtime where
  "ex_rt = \<lparr>ORDER_PREFIX = None, TRACKING_PREFIX = None, now_date = ex_date,
            random_floor = 42, random_base36 = ''0.4fzyo82mvyr'', db_now = 1000\<rparr>"

definition ex_rt2 :: runtime where
  "ex_rt2 = \<lparr>ORDER_PREFIX = None, TRACKING_PREFIX = None, now_date = ex_date,
             random_floor = 7, random_base36 = ''0.i'', db_now = 2000\<rparr>"

definition ex_product1 :: "int product" where
  "ex_product1 =
     \<lparr>p_id = 1, p_sku = Some ''OIL-MOT-000001'', p_name = ''Motul 8100'', p_description = None,
      p_brand = Some ''Motul'', p_type = Some ''synthetic'', p_viscosity = Some ''5W-40'',
      p_volume_ml = Some 4000, p_application = Some ''petrol'', p_price = 3500, p_stock = 5,
      p_images = [], p_characteristics = None, p_createdAt = 0, p_updatedAt = 0\<rparr>"

definition ex_product2 :: "int product" where
  "ex_product2 =
     \<lparr>p_id = 2, p_sku = Some ''OIL-LUK-000002'', p_name = ''Lukoil Genesis'', p_description = None,
      p_brand = Some ''Lukoil'', p_type = Some ''mineral'', p_viscosity = Some ''10W-40'',
      p_volume_ml = Some 1000, p_application = Some ''diesel'', p_price = 1900, p_stock = 0,
      p_images = [], p_characteristics = None, p_createdAt = 0, p_updatedAt = 0\<rparr>"

definition ex_db :: "int db" where
  "ex_db =
     \<lparr>products = [ex_product1, ex_product2], orders = [], orderItems = [],
      users = [\<lparr>u_id = 1, u_email = ''ann@example.com'', u_phone = None, u_name = None, u_createdAt = 0\<rparr>,
               \<lparr>u_id = 2, u_email = ''bob@example.com'', u_phone = None, u_name = None, u_createdAt = 0\<rparr>],
      product_seq = 3, order_seq = 1, item_seq = 1\<rparr>"

definition ex_value :: order_value where
  "ex_value =
     \<lparr>contactName = ''Ann'', phone = ''+79990000001'', email = None, deliveryMethod = ''pickup'',
      deliveryAddress = None, paymentMethod = ''card'',
      items = [\<lparr>productId = 1, quantity = 3\<rparr>], userId = None, notes' = None\<rparr>"

text \<open>A line item asks for more than the product has in stock now.\<close>

definition insufficient :: "'p db \<Rightarrow> line_item \<Rightarrow> bool" where
  "insufficient d it =
     (case current_product d (productId it) of None \<Rightarrow> False | Some p \<Rightarrow> p_stock p < quantity it)"

text \<open>
  Requests against the shop: the same product on two lines; a line for the product that
  is out of stock after a line that can be served; a line that cannot be served
  followed by a product id that does not exist.
\<close>

definition ex_value_dup :: order_value where
  "ex_value_dup = ex_value\<lparr>items := [\<lparr>productId = 1, quantity = 1\<rparr>, \<lparr>productId = 1, quantity = 1\<rparr>]\<rparr>"

definition ex_value_short :: order_value where
  "ex_value_short = ex_value\<lparr>items := [\<lparr>productId = 1, quantity = 3\<rparr>, \<lparr>productId = 2, quantity = 1\<rparr>]\<rparr>"

definition ex_value_mixed :: order_value where
  "ex_value_mixed = ex_value\<lparr>items := [\<lparr>productId = 1, quantity = 10\<rparr>, \<lparr>productId = 99, quantity = 1\<rparr>]\<rparr>"

text \<open>
  Two requests for three units each of the first product (five in stock), interleaved
  at the handler's first \<open>await\<close>: both fetch the products before either issues its
  transaction.
\<close>

definition ex_value_b :: order_value where
  "ex_value_b = ex_value\<lparr>contactName := ''Bob'', phone := ''+79990000002''\<rparr>"

definition ex_race_first :: "int response \<times> int db" where
  "ex_race_first =
     create_order_from ex_ops ex_rt ex_value
       (product_findMany_in ex_db (map productId (items ex_value))) ex_db"

definition ex_race_second :: "int response \<times> int db" where
  "ex_race_second =
     create_order_from ex_ops ex_rt2 ex_value_b
       (product_findMany_in ex_db (map productId (items ex_value_b))) (snd ex_race_first)"

text \<open>
  An order of the first user that gives the second user's email as contact, and the
  shop after the plain order was placed.
\<close>

definition ex_value_refresh :: order_value where
  "ex_value_refresh = ex_value\<lparr>userId := Some 1, email := Some ''bob@example.com''\<rparr>"

definition ex_db_ordered :: "int db" where
  "ex_db_ordered = snd (create_order ex_ops ex_rt (JoiValue ex_value) ex_db)"

text \<open>Catalog queries: no parameter, \<open>inStock=true\<close>, \<open>inStock=false\<close>, \<open>page=abc\<close>.\<close>

definition ex_q :: catalog_query where
  "ex_q = \<lparr>q_q = None, q_type = None, q_viscosity = None, q_brand = None, q_volume = None,
           q_application = None, q_minPrice = None, q_maxPrice = None, q_inStock = None,
           q_sortBy = None, q_sortOrder = None, q_page = None, q_limit = None\<rparr>"

definition ex_q_true :: catalog_query where
  "ex_q_true = ex_q\<lparr>q_inStock := Some ''true''\<rparr>"

definition ex_q_false :: catalog_query where
  "ex_q_false = ex_q\<lparr>q_inStock := Some ''false''\<rparr>"


text \<open>Decimal digits of a number below 100 and below 10000, with leading zeros.\<close>

definition two_digits :: "nat \<Rightarrow> string" where
  "two_digits n = [digit_char (n div 10), digit_char (n mod 10)]"

definition four_digits :: "nat \<Rightarrow> string" where
  "four_digits n = two_digits (n div 100) @ two_digits (n mod 100)"

section \<open>Order placement: what a successful run leaves behind\<close>

lemma find_filter_id:
  "pid \<in> S \<Longrightarrow> find (\<lambda>p. p_id p = pid) (filter (\<lambda>p. p_id p \<in> S) xs) = find (\<lambda>p. p_id p = pid) xs"
  by (induction xs) auto

lemma find_id_Some: "find (\<lambda>p. p_id p = pid) xs = Some p \<Longrightarrow> p_id p = pid \<and> p \<in> set xs"
  by (induction xs) (auto split: if_splits)

lemma check_items_Inr:
  "check_items ops ps its (t, us, os) = Inr (t', us', os') \<Longrightarrow>
     list_all (\<lambda>it. case find (\<lambda>p. p_id p = productId it) ps of None \<Rightarrow> False
                    | Some p \<Rightarrow> quantity it \<le> p_stock p) its
     \<and> t' = foldl (\<lambda>acc it. f_add ops acc
                 (f_mul ops (p_price (the (find (\<lambda>p. p_id p = productId it) ps))) (quantity it))) t its
     \<and> us' = us @ map (\<lambda>it. (productId it,
                 p_stock (the (find (\<lambda>p. p_id p = productId it) ps)) - quantity it)) its
     \<and> os' = os @ map (\<lambda>it. (productId it, quantity it,
                 p_price (the (find (\<lambda>p. p_id p = productId it) ps)))) its"
proof (induction its arbitrary: t us os)
  case Nil
  then show ?case by simp
next
  case (Cons it its)
  from Cons.prems obtain p where p: "find (\<lambda>p. p_id p = productId it) ps = Some p"
    by (cases "find (\<lambda>p. p_id p = productId it) ps") auto
  have pid: "p_id p = productId it" using find_id_Some [OF p] by simp
  from Cons.prems p have st: "\<not> p_stock p < quantity it"
    by (auto split: if_splits)
  from Cons.prems p st pid have rec:
    "check_items ops ps its (f_add ops t (f_mul ops (p_price p) (quantity it)),
        us @ [(productId it, p_stock p - quantity it)],
        os @ [(productId it, quantity it, p_price p)]) = Inr (t', us', os')"
    by simp
  from Cons.IH [OF rec] p st show ?case by simp
qed

lemma product_update_stock_frame:
  "product_update_stock now pid s d = Inr d' \<Longrightarrow>
     orders d' = orders d \<and> orderItems d' = orderItems d \<and> users d' = users d
     \<and> order_seq d' = order_seq d \<and> item_seq d' = item_seq d"
  by (auto simp: product_update_stock_def split: if_splits)

lemma run_updates_frame:
  "run_updates now ups d = Inr d' \<Longrightarrow>
     orders d' = orders d \<and> orderItems d' = orderItems d \<and> users d' = users d
     \<and> order_seq d' = order_seq d \<and> item_seq d' = item_seq d"
proof (induction ups arbitrary: d)
  case Nil
  then show ?case by simp
next
  case (Cons u ups)
  obtain pid s where u: "u = (pid, s)" by (cases u)
  from Cons.prems u obtain d1 where d1: "product_update_stock now pid s d = Inr d1"
    and rest: "run_updates now ups d1 = Inr d'"
    by (auto split: sum.splits)
  from Cons.IH [OF rest] product_update_stock_frame [OF d1] show ?case by simp
qed

lemma transaction_Inr:
  "transaction now x ups d = Inr (ord, its, d') \<Longrightarrow>
     ord = new_order now (order_seq d) x
     \<and> its = new_items (order_seq d) (item_seq d) (d_items x)
     \<and> orders d' = orders d @ [ord]
     \<and> orderItems d' = orderItems d @ its
     \<and> users d' = users d"
  unfolding transaction_def order_create_def
  by (auto split: sum.splits if_splits dest!: run_updates_frame)

lemma refresh_user_frame:
  "refresh_user v d = Inr d' \<Longrightarrow>
     orders d' = orders d \<and> orderItems d' = orderItems d \<and> products d' = products d"
  unfolding refresh_user_def user_update_def
  by (auto split: option.splits if_splits)








section \<open>Order placement: the two checks before the transaction\<close>

text \<open>
  \<open>Product.id\<close> is the primary key: the ids of the table are pairwise distinct. Under
  that invariant the batch lookup returns fewer rows than there are line items as soon
  as one product id does not resolve, and the handler answers 404 with the database
  untouched.
\<close>

lemma fetch_length:
  assumes "distinct (map p_id ps)" "distinct ids" "set ids \<subseteq> p_id ` set ps"
  shows "length (filter (\<lambda>p. p_id p \<in> set ids) ps) = length ids"
proof -
  have d: "distinct (map p_id (filter (\<lambda>p. p_id p \<in> set ids) ps))"
    using assms(1) by (simp add: distinct_map_filter)
  have s: "set (map p_id (filter (\<lambda>p. p_id p \<in> set ids) ps)) = set ids"
    using assms(3) by auto
  have "length (filter (\<lambda>p. p_id p \<in> set ids) ps) = length (map p_id (filter (\<lambda>p. p_id p \<in> set ids) ps))"
    by simp
  also have "\<dots> = card (set ids)"
    using d s by (metis distinct_card)
  also have "\<dots> = length ids"
    using assms(2) by (rule distinct_card)
  finally show ?thesis .
qed

lemma fetch_short:
  assumes "distinct (map p_id ps)" "x \<in> set ids" "x \<notin> p_id ` set ps"
  shows "length (filter (\<lambda>p. p_id p \<in> set ids) ps) < length ids"
proof -
  have d: "distinct (map p_id (filter (\<lambda>p. p_id p \<in> set ids) ps))"
    using assms(1) by (simp add: distinct_map_filter)
  have s: "set (map p_id (filter (\<lambda>p. p_id p \<in> set ids) ps)) \<subseteq> set ids - {x}"
    using assms(3) by auto
  have "length (filter (\<lambda>p. p_id p \<in> set ids) ps) = card (set (map p_id (filter (\<lambda>p. p_id p \<in> set ids) ps)))"
    using d by (metis distinct_card length_map)
  also have "\<dots> \<le> card (set ids - {x})"
    using s by (intro card_mono) auto
  also have "\<dots> < card (set ids)"
    using assms(2) by (intro card_Diff1_less) auto
  also have "\<dots> \<le> length ids"
    by (rule card_length)
  finally show ?thesis .
qed

lemma find_None_id: "find (\<lambda>p. p_id p = pid) xs = None \<longleftrightarrow> pid \<notin> p_id ` set xs"
  by (induction xs) auto

lemma missing_product_not_found:
  assumes "distinct (map p_id (products d))"
    and "list_ex (\<lambda>it. current_product d (productId it) = None) (items v)"
  shows "create_order ops rt (JoiValue v) d = ((404, error_body ''Some products not found''), d)"
proof -
  from assms(2) obtain it where it: "it \<in> set (items v)" "current_product d (productId it) = None"
    by (auto simp: list_ex_iff)
  then have "productId it \<notin> p_id ` set (products d)"
    by (simp add: current_product_def find_None_id)
  with it(1) assms(1)
  have "length (product_findMany_in d (map productId (items v))) < length (map productId (items v))"
    unfolding product_findMany_in_def by (intro fetch_short [where x = "productId it"]) auto
  then show ?thesis
    by (simp add: create_order_def create_order_from_def prepare_def)
qed

lemma check_items_prefix:
  assumes "\<forall>j \<in> set pre. \<exists>p. find (\<lambda>p. p_id p = productId j) ps = Some p \<and> \<not> p_stock p < quantity j"
  shows "\<exists>acc'. check_items ops ps (pre @ rest) acc = check_items ops ps rest acc'"
  using assms
proof (induction pre arbitrary: acc)
  case Nil
  show ?case by (rule exI [of _ acc]) simp
next
  case (Cons j pre)
  obtain t us os where acc: "acc = (t, us, os)" by (cases acc)
  from Cons.prems obtain p where p: "find (\<lambda>p. p_id p = productId j) ps = Some p"
    "\<not> p_stock p < quantity j" by auto
  from Cons.prems have "\<forall>j \<in> set pre. \<exists>p. find (\<lambda>p. p_id p = productId j) ps = Some p \<and> \<not> p_stock p < quantity j"
    by simp
  from Cons.IH [OF this] p show ?case
    unfolding acc by simp
qed

text \<open>
  Conversely, when the line items name pairwise distinct ids that all resolve, the
  answer is never 404.
\<close>

lemma check_items_Inl_found:
  assumes "check_items ops ps its acc = Inl r"
    and "list_all (\<lambda>it. find (\<lambda>p. p_id p = productId it) ps \<noteq> None) its"
  shows "fst r = 400"
  using assms
proof (induction its arbitrary: acc)
  case Nil
  then show ?case by simp
next
  case (Cons it its)
  obtain t us os where acc: "acc = (t, us, os)" by (cases acc)
  from Cons show ?case unfolding acc
    by (auto split: option.splits if_splits)
qed

lemma resolved_distinct_lines_not_404:
  assumes "distinct (map p_id (products d))"
    and "distinct (map productId (items v))"
    and "list_all (\<lambda>it. current_product d (productId it) \<noteq> None) (items v)"
  shows "fst (fst (create_order ops rt (JoiValue v) d)) \<noteq> 404"
proof -
  let ?ids = "map productId (items v)"
  let ?ps = "product_findMany_in d ?ids"
  have same: "find (\<lambda>p. p_id p = productId j) ?ps = current_product d (productId j)"
    if "j \<in> set (items v)" for j
    using that unfolding product_findMany_in_def current_product_def
    by (intro find_filter_id) auto
  have all: "set ?ids \<subseteq> p_id ` set (products d)"
    using assms(3) by (auto simp: list_all_iff current_product_def find_None_id)
  have len: "length ?ps = length (items v)"
    using fetch_length [OF assms(1) assms(2) all] by (simp add: product_findMany_in_def)
  have found: "list_all (\<lambda>it. find (\<lambda>p. p_id p = productId it) ?ps \<noteq> None) (items v)"
    using assms(3) same by (simp add: list_all_iff)
  show ?thesis
  proof (cases "check_items ops ?ps (items v) (0, [], [])")
    case (Inl r)
    from check_items_Inl_found [OF Inl found] Inl len show ?thesis
      by (simp add: create_order_def create_order_from_def prepare_def)
  next
    case (Inr acc)
    with len show ?thesis
      by (auto simp: create_order_def create_order_from_def prepare_def split: sum.splits prod.splits)
  qed
qed

text \<open>
  Claim C2. Not-Found is promised only for requests that name a product id that does
  not resolve. The handler compares the number of fetched rows with the number of line
  items, so a request that names the same existing product on two lines is answered
  \<open>404 Some products not found\<close> as well: here both lines refer to product 1, which
  exists, and the database is left as it was.
\<close>

theorem duplicate_lines_answered_not_found:
  "list_all (\<lambda>it. current_product ex_db (productId it) \<noteq> None) (items ex_value_dup)
   \<and> create_order ex_ops ex_rt (JoiValue ex_value_dup) ex_db =
       ((404, error_body ''Some products not found''), ex_db)"
  by code_simp

text \<open>
  Claim C3, as amended. For a validated request whose line items name pairwise
  distinct product ids that all resolve (the request passes the Not-Found step), if
  some line asks for more than the stock of its product, then the handler stops at the
  first such line and answers 400 with the message
  \<open>Insufficient stock for <name>. Available: <stock>\<close> and the product's id, and the
  database is exactly as before: no order row, no order item, no stock change.
\<close>

theorem insufficient_stock_aborts:
  assumes "distinct (map p_id (products d))"
    and "distinct (map productId (items v))"
    and "list_all (\<lambda>it. current_product d (productId it) \<noteq> None) (items v)"
    and "list_ex (insufficient d) (items v)"
  shows "\<exists>pre it post p.
           items v = pre @ it # post
         \<and> list_all (\<lambda>j. \<not> insufficient d j) pre
         \<and> current_product d (productId it) = Some p
         \<and> p_stock p < quantity it
         \<and> create_order ops rt (JoiValue v) d =
             ((400, JObj [(''error'', JStr (''Insufficient stock for '' @ p_name p
                                           @ ''. Available: '' @ show_int (p_stock p))),
                          (''productId'', JInt (p_id p))]), d)"
proof -
  let ?ids = "map productId (items v)"
  let ?ps = "product_findMany_in d ?ids"
  from assms(4) have "\<exists>it \<in> set (items v). insufficient d it"
    by (simp add: list_ex_iff)
  from split_list_first_prop [OF this] obtain pre it post where
    split: "items v = pre @ it # post" and it: "insufficient d it"
    and pre: "\<forall>j \<in> set pre. \<not> insufficient d j"
    by blast
  from it obtain p where p: "current_product d (productId it) = Some p" "p_stock p < quantity it"
    by (auto simp: insufficient_def split: option.splits)
  have same: "find (\<lambda>p. p_id p = productId j) ?ps = current_product d (productId j)"
    if "j \<in> set (items v)" for j
    using that unfolding product_findMany_in_def current_product_def
    by (intro find_filter_id) auto
  have all: "set ?ids \<subseteq> p_id ` set (products d)"
    using assms(3) by (auto simp: list_all_iff current_product_def find_None_id)
  have len: "length ?ps = length (items v)"
    using fetch_length [OF assms(1) assms(2) all] by (simp add: product_findMany_in_def)
  have ok: "\<forall>j \<in> set pre. \<exists>p. find (\<lambda>p. p_id p = productId j) ?ps = Some p \<and> \<not> p_stock p < quantity j"
  proof
    fix j assume j: "j \<in> set pre"
    then have jv: "j \<in> set (items v)" using split by simp
    with assms(3) obtain q where q: "current_product d (productId j) = Some q"
      by (auto simp: list_all_iff)
    with pre j have "\<not> p_stock q < quantity j"
      by (auto simp: insufficient_def)
    with q same [OF jv] show "\<exists>p. find (\<lambda>p. p_id p = productId j) ?ps = Some p \<and> \<not> p_stock p < quantity j"
      by simp
  qed
  from check_items_prefix [OF ok, of ops "it # post" "(0, [], [])"] obtain acc' where
    "check_items ops ?ps (items v) (0, [], []) = check_items ops ?ps (it # post) acc'"
    using split by auto
  moreover obtain t us os where "acc' = (t, us, os)" by (cases acc')
  moreover have "find (\<lambda>p. p_id p = productId it) ?ps = Some p"
    using same [of it] split p by simp
  ultimately have "check_items ops ?ps (items v) (0, [], []) =
      Inl (400, JObj [(''error'', JStr (''Insufficient stock for '' @ p_name p
                                           @ ''. Available: '' @ show_int (p_stock p))),
                          (''productId'', JInt (p_id p))])"
    using p by simp
  then have "create_order ops rt (JoiValue v) d =
             ((400, JObj [(''error'', JStr (''Insufficient stock for '' @ p_name p
                                           @ ''. Available: '' @ show_int (p_stock p))),
                          (''productId'', JInt (p_id p))]), d)"
    using len by (simp add: create_order_def create_order_from_def prepare_def)
  with split pre p show ?thesis
    by (auto simp: list_all_iff)
qed

theorem insufficient_stock_aborts_witness:
  "distinct (map p_id (products ex_db))
   \<and> distinct (map productId (items ex_value_short))
   \<and> list_all (\<lambda>it. current_product ex_db (productId it) \<noteq> None) (items ex_value_short)
   \<and> list_ex (insufficient ex_db) (items ex_value_short)
   \<and> (\<exists>pre it post p.
          items ex_value_short = pre @ it # post
        \<and> list_all (\<lambda>j. \<not> insufficient ex_db j) pre
        \<and> current_product ex_db (productId it) = Some p
        \<and> p_stock p < quantity it
        \<and> create_order ex_ops ex_rt (JoiValue ex_value_short) ex_db =
            ((400, JObj [(''error'', JStr (''Insufficient stock for '' @ p_name p
                                          @ ''. Available: '' @ show_int (p_stock p))),
                         (''productId'', JInt (p_id p))]), ex_db))"
proof -
  have h1: "distinct (map p_id (products ex_db))"
    by code_simp
  have h2: "distinct (map productId (items ex_value_short))"
    by code_simp
  have h3: "list_all (\<lambda>it. current_product ex_db (productId it) \<noteq> None) (items ex_value_short)"
    by code_simp
  have h4: "list_ex (insufficient ex_db) (items ex_value_short)"
    by code_simp
  from insufficient_stock_aborts [OF h1 h2 h3 h4, of ex_ops ex_rt] h1 h2 h3 h4
  show ?thesis by blast
qed

text \<open>
  The claim as stated fails where another line names a product that does not exist:
  the first line asks for ten units of a product with five in stock, and the answer
  is Not-Found, not Insufficient-Stock.
\<close>

theorem insufficient_stock_counterexample:
  "list_ex (insufficient ex_db) (items ex_value_mixed)
   \<and> create_order ex_ops ex_rt (JoiValue ex_value_mixed) ex_db =
       ((404, error_body ''Some products not found''), ex_db)"
  by code_simp

lemma ex_short_answer:
  "create_order ex_ops ex_rt (JoiValue ex_value_short) ex_db =
     ((400, JObj [(''error'', JStr ''Insufficient stock for Lukoil Genesis. Available: 0''),
                  (''productId'', JInt 2)]), ex_db)"
  by code_simp

section \<open>Order placement under interleaving\<close>

text \<open>
  Whatever rows the handler fetched and whatever ran in between, a transaction writes
  for each line the fetched stock minus the quantity, which the check has found not
  negative: no run of the handler stores a negative stock.
\<close>

lemma check_items_updates_nonneg:
  assumes "check_items ops ps its (t, us, os) = Inr (t', us', os')"
    and "list_all (\<lambda>u. 0 \<le> snd u) us"
  shows "list_all (\<lambda>u. 0 \<le> snd u) us'"
proof -
  note facts = check_items_Inr [OF assms(1)]
  from facts have ok: "list_all (\<lambda>it. case find (\<lambda>p. p_id p = productId it) ps of None \<Rightarrow> False
                    | Some p \<Rightarrow> quantity it \<le> p_stock p) its"
    by simp
  have "list_all (\<lambda>u. 0 \<le> snd u)
          (map (\<lambda>it. (productId it, p_stock (the (find (\<lambda>p. p_id p = productId it) ps)) - quantity it)) its)"
    using ok by (auto simp: list_all_iff split: option.splits)
  with facts assms(2) show ?thesis by simp
qed

lemma product_update_stock_nonneg:
  assumes "product_update_stock now pid s d = Inr d'" "0 \<le> s"
    and "list_all (\<lambda>p. 0 \<le> p_stock p) (products d)"
  shows "list_all (\<lambda>p. 0 \<le> p_stock p) (products d')"
  using assms by (auto simp: product_update_stock_def list_all_iff split: if_splits)

lemma run_updates_nonneg:
  assumes "run_updates now ups d = Inr d'" "list_all (\<lambda>u. 0 \<le> snd u) ups"
    and "list_all (\<lambda>p. 0 \<le> p_stock p) (products d)"
  shows "list_all (\<lambda>p. 0 \<le> p_stock p) (products d')"
  using assms
proof (induction ups arbitrary: d)
  case Nil
  then show ?case by simp
next
  case (Cons u ups)
  obtain pid s where u: "u = (pid, s)" by (cases u)
  from Cons.prems(1) u obtain d1 where d1: "product_update_stock now pid s d = Inr d1"
    and rest: "run_updates now ups d1 = Inr d'"
    by (auto split: sum.splits)
  from Cons.prems(2) u have s: "0 \<le> s" and ups: "list_all (\<lambda>u. 0 \<le> snd u) ups"
    by simp_all
  from product_update_stock_nonneg [OF d1 s Cons.prems(3)]
  have "list_all (\<lambda>p. 0 \<le> p_stock p) (products d1)" .
  from Cons.IH [OF rest ups this] show ?case .
qed

lemma order_create_products: "order_create now x d = Inr (ord, its, d1) \<Longrightarrow> products d1 = products d"
  by (auto simp: order_create_def split: if_splits)

lemma create_order_from_stock_nonneg:
  assumes "list_all (\<lambda>p. 0 \<le> p_stock p) (products d)"
  shows "list_all (\<lambda>p. 0 \<le> p_stock p) (products (snd (create_order_from ops rt v ps d)))"
proof (cases "prepare ops v ps")
  case (Inl r)
  with assms show ?thesis by (simp add: create_order_from_def)
next
  case (Inr acc)
  obtain t us os where acc: "acc = (t, us, os)" by (cases acc)
  from Inr acc have chk: "check_items ops ps (items v) (0, [], []) = Inr (t, us, os)"
    by (auto simp: prepare_def split: if_splits)
  have us: "list_all (\<lambda>u. 0 \<le> snd u) us"
    using check_items_updates_nonneg [OF chk] by simp
  show ?thesis
  proof (cases "transaction (db_now rt) (order_data_of rt v t os) us d")
    case (Inl e)
    with Inr acc assms show ?thesis by (simp add: create_order_from_def)
  next
    case tx: (Inr res)
    obtain ord its d1 where res: "res = (ord, its, d1)" by (cases res)
    from tx res obtain d0 where c: "order_create (db_now rt) (order_data_of rt v t os) d = Inr (ord, its, d0)"
      and r: "run_updates (db_now rt) us d0 = Inr d1"
      by (auto simp: transaction_def split: sum.splits)
    from order_create_products [OF c] assms have "list_all (\<lambda>p. 0 \<le> p_stock p) (products d0)"
      by simp
    from run_updates_nonneg [OF r us this] have d1: "list_all (\<lambda>p. 0 \<le> p_stock p) (products d1)" .
    show ?thesis
    proof (cases "refresh_user v d1")
      case (Inl e)
      with Inr acc tx res d1 show ?thesis by (simp add: create_order_from_def)
    next
      case rf: (Inr d2)
      from refresh_user_frame [OF rf] d1 have "list_all (\<lambda>p. 0 \<le> p_stock p) (products d2)"
        by simp
      with Inr acc tx res rf show ?thesis by (simp add: create_order_from_def)
    qed
  qed
qed

text \<open>
  Claim C1. Two requests for three units each of a product with five in stock are
  interleaved at the first \<open>await\<close>: both pass the stock check on the rows they
  fetched, both transactions commit, both are answered 201, and the second
  transaction writes the stock it computed from its stale row. Six units are sold
  from five, the stored stock is 2, and no request sees Insufficient-Stock.
\<close>

theorem concurrent_orders_oversell:
  "p_stock ex_product1 = 5
   \<and> fst (fst ex_race_first) = 201
   \<and> fst (fst ex_race_second) = 201
   \<and> map oi_quantity (filter (\<lambda>it. oi_productId it = 1) (orderItems (snd ex_race_second))) = [3, 3]
   \<and> map p_stock (products (snd ex_race_second)) = [2, 0]"
  by code_simp

section \<open>Order and tracking numbers\<close>

text \<open>
  The order number: for a date with a four-digit year and a random part below 10000
  it is the prefix, two digits each for year, month and day, and four digits of the
  random part. The tracking number: the prefix and the first eight characters after
  \<open>0.\<close>, upper-cased; fewer when the base-36 form has fewer.
\<close>

lemma digit_char_0: "digit_char 0 = CHR ''0''"
  by (simp add: digit_char_def)

lemma digit_char_not_dash: "k < 10 \<Longrightarrow> digit_char k \<noteq> CHR ''-''"
proof -
  assume "k < 10"
  then have "k \<in> {0, 1, 2, 3, 4, 5, 6, 7, 8, 9}" by auto
  then show ?thesis by (auto simp: digit_char_def)
qed

lemma show_nat_one: "n < 10 \<Longrightarrow> show_nat n = [digit_char n]"
  by (simp add: show_nat.simps)

lemma show_nat_two: "10 \<le> n \<Longrightarrow> n < 100 \<Longrightarrow> show_nat n = [digit_char (n div 10), digit_char (n mod 10)]"
  by (subst show_nat.simps) (simp add: show_nat_one)

lemma show_nat_three:
  "100 \<le> n \<Longrightarrow> n < 1000 \<Longrightarrow>
     show_nat n = [digit_char (n div 100), digit_char (n div 10 mod 10), digit_char (n mod 10)]"
  by (subst show_nat.simps) (simp add: show_nat_two div_mult2_eq [symmetric])

lemma show_nat_four:
  "1000 \<le> n \<Longrightarrow> n < 10000 \<Longrightarrow>
     show_nat n = [digit_char (n div 1000), digit_char (n div 100 mod 10),
                   digit_char (n div 10 mod 10), digit_char (n mod 10)]"
  by (subst show_nat.simps) (simp add: show_nat_three div_mult2_eq [symmetric])

lemma padStart_two: "n < 100 \<Longrightarrow> padStart 2 CHR ''0'' (show_nat n) = two_digits n"
  by (cases "n < 10") (simp_all add: padStart_def two_digits_def show_nat_one show_nat_two digit_char_0)

lemma padStart_four:
  assumes "n < 10000"
  shows "padStart 4 CHR ''0'' (show_nat n) = four_digits n"
proof -
  have "n mod (10 * 10) = 10 * (n div 10 mod 10) + n mod 10"
    by (rule mod_mult2_eq)
  then have m: "n mod 100 div 10 = n div 10 mod 10"
    by simp
  have m2: "n mod 100 mod 10 = n mod 10"
    by (simp add: mod_mod_cancel)
  consider "n < 10" | "10 \<le> n" "n < 100" | "100 \<le> n" "n < 1000" | "1000 \<le> n"
    by linarith
  then show ?thesis
  proof cases
    case 1
    then show ?thesis
      by (simp add: padStart_def four_digits_def two_digits_def show_nat_one digit_char_0
            numeral_3_eq_3)
  next
    case 2
    then show ?thesis
      by (simp add: padStart_def four_digits_def two_digits_def show_nat_two digit_char_0
            numeral_2_eq_2 m2)
  next
    case 3
    then have "n div 100 < 10" by simp
    with 3 show ?thesis
      by (simp add: padStart_def four_digits_def two_digits_def show_nat_three digit_char_0 m m2)
  next
    case 4
    have "n div 100 div 10 = n div 1000"
      by (simp add: div_mult2_eq [symmetric])
    with 4 assms show ?thesis
      by (simp add: padStart_def four_digits_def two_digits_def show_nat_four m m2)
  qed
qed


lemma generateOrderNumber_format:
  assumes "0 \<le> year (now_date rt)" "year (now_date rt) \<le> 9999"
    and "month (now_date rt) < 100" "day (now_date rt) < 100"
    and "random_floor rt < 10000"
  shows "generateOrderNumber rt =
           or_default (ORDER_PREFIX rt) ''OM''
           @ two_digits (nat (year (now_date rt)) mod 100)
           @ two_digits (month (now_date rt))
           @ two_digits (day (now_date rt))
           @ four_digits (random_floor rt)"
proof -
  let ?d = "now_date rt"
  let ?y = "nat (year ?d)"
  have y: "?y < 10000" using assms(1,2) by linarith
  have yy: "padStart 4 CHR ''0'' (show_int (year ?d)) = two_digits (?y div 100) @ two_digits (?y mod 100)"
    using assms(1) padStart_four [OF y] by (simp add: show_int_def four_digits_def)
  have iso: "substring 2 10 (toISOString ?d)
      = two_digits (?y mod 100) @ ''-'' @ two_digits (month ?d) @ ''-'' @ two_digits (day ?d)"
    using assms(1,2) padStart_two [OF assms(3)] padStart_two [OF assms(4)]
    by (simp add: toISOString_def yy substring_def two_digits_def)
  have nd: "replace_dashes (two_digits k) = two_digits k" if "k < 100" for k
  proof -
    from that have "k div 10 < 10" "k mod 10 < 10" by simp_all
    then show ?thesis
      by (simp add: replace_dashes_def two_digits_def digit_char_not_dash)
  qed
  have "?y mod 100 < 100" by simp
  then have "replace_dashes (substring 2 10 (toISOString ?d))
      = two_digits (?y mod 100) @ two_digits (month ?d) @ two_digits (day ?d)"
    using nd [of "?y mod 100"] nd [OF assms(3)] nd [OF assms(4)]
    by (simp add: iso replace_dashes_def)
  then show ?thesis
    by (simp add: generateOrderNumber_def Let_def padStart_four [OF assms(5)])
qed

lemma toUpperCase_length: "length (toUpperCase s) = length s"
  by (simp add: toUpperCase_def)

lemma generateTrackingNumber_format:
  assumes "random_base36 rt = ''0.'' @ ds"
  shows "generateTrackingNumber rt = or_default (TRACKING_PREFIX rt) ''OIL'' @ toUpperCase (take 8 ds)
       \<and> length (toUpperCase (take 8 ds)) = min (length ds) 8"
  using assms by (simp add: generateTrackingNumber_def substring_def toUpperCase_length)

text \<open>
  Claim C5. The tracking number is the prefix followed by the characters 2 to 9 of
  \<open>Math.random().toString(36)\<close>, upper-cased. When \<open>Math.random()\<close> returns 0.5, whose
  base-36 form is \<open>0.i\<close>, the token has one character, not eight.
\<close>

theorem tracking_token_short:
  "random_base36 ex_rt2 = ''0.i'' \<and> generateTrackingNumber ex_rt2 = ''OILI''"
  by code_simp

section \<open>Tracking lookup\<close>

lemma omit_keys_absent: "k \<in> set ks \<Longrightarrow> k \<notin> fst ` set (omit_keys ks obj)"
  by (auto simp: omit_keys_def)

lemma ex_tracked: "find (\<lambda>ord. o_trackingNumber ord = Some ''OIL4FZYO82M'') (orders ex_db_ordered)
    = Some (hd (orders ex_db_ordered))"
  by code_simp

lemma ex_tracked_phone: "o_phone (hd (orders ex_db_ordered)) = ''+79990000001''"
  by code_simp

text \<open>
  Claim C6, as amended. For a tracking number that resolves to an order: when the
  phone parameter is absent or empty the answer is 400 (the handler tests this before
  it looks the order up); when a non-empty phone differs from the stored phone the
  answer is 403 with the error message alone; when it equals the stored phone the
  answer is 200 with the order object from which the keys \<open>deliveryAddress\<close> and
  \<open>email\<close> have been removed, so neither key occurs in it.
\<close>

theorem track_access:
  assumes "find (\<lambda>ord. o_trackingNumber ord = Some tn) (orders d) = Some ord"
  shows "(\<not> truthy ph \<longrightarrow> track d tn ph = (400, error_body ''Phone number is required''))
       \<and> (truthy ph \<and> ph \<noteq> Some (o_phone ord) \<longrightarrow>
            track d tn ph = (403, error_body ''Access denied. Phone number does not match.''))
       \<and> (truthy ph \<and> ph = Some (o_phone ord) \<longrightarrow>
            (\<exists>obj. track d tn ph = (200, JObj obj)
                 \<and> obj = filter (\<lambda>kv. fst kv \<noteq> ''deliveryAddress'' \<and> fst kv \<noteq> ''email'')
                           (tracked_order d ord)
                 \<and> ''deliveryAddress'' \<notin> fst ` set obj
                 \<and> ''email'' \<notin> fst ` set obj))"
proof (intro conjI impI)
  assume "\<not> truthy ph"
  then show "track d tn ph = (400, error_body ''Phone number is required'')"
    by (simp add: track_def)
next
  assume "truthy ph \<and> ph \<noteq> Some (o_phone ord)"
  with assms show "track d tn ph = (403, error_body ''Access denied. Phone number does not match.'')"
    by (auto simp: track_def)
next
  assume a: "truthy ph \<and> ph = Some (o_phone ord)"
  let ?obj = "omit_keys [''deliveryAddress'', ''email''] (tracked_order d ord)"
  from a assms have "track d tn ph = (200, JObj ?obj)"
    by (auto simp: track_def)
  moreover have "?obj = filter (\<lambda>kv. fst kv \<noteq> ''deliveryAddress'' \<and> fst kv \<noteq> ''email'') (tracked_order d ord)"
    by (simp add: omit_keys_def)
  moreover have "''deliveryAddress'' \<notin> fst ` set ?obj" "''email'' \<notin> fst ` set ?obj"
    by (simp_all add: omit_keys_absent)
  ultimately show "\<exists>obj. track d tn ph = (200, JObj obj)
                 \<and> obj = filter (\<lambda>kv. fst kv \<noteq> ''deliveryAddress'' \<and> fst kv \<noteq> ''email'')
                           (tracked_order d ord)
                 \<and> ''deliveryAddress'' \<notin> fst ` set obj
                 \<and> ''email'' \<notin> fst ` set obj"
    by blast
qed

theorem track_access_witness:
  "find (\<lambda>ord. o_trackingNumber ord = Some ''OIL4FZYO82M'') (orders ex_db_ordered)
     = Some (hd (orders ex_db_ordered))
   \<and> track ex_db_ordered ''OIL4FZYO82M'' (Some '''') = (400, error_body ''Phone number is required'')
   \<and> track ex_db_ordered ''OIL4FZYO82M'' (Some ''+79990000002'')
       = (403, error_body ''Access denied. Phone number does not match.'')
   \<and> (\<exists>obj. track ex_db_ordered ''OIL4FZYO82M'' (Some ''+79990000001'') = (200, JObj obj)
          \<and> ''deliveryAddress'' \<notin> fst ` set obj \<and> ''email'' \<notin> fst ` set obj)"
proof -
  note t = track_access [OF ex_tracked]
  have "track ex_db_ordered ''OIL4FZYO82M'' (Some '''') = (400, error_body ''Phone number is required'')"
    using t [of "Some ''''"] by (simp add: truthy_def)
  moreover have "track ex_db_ordered ''OIL4FZYO82M'' (Some ''+79990000002'')
       = (403, error_body ''Access denied. Phone number does not match.'')"
    using t [of "Some ''+79990000002''"] by (simp add: truthy_def ex_tracked_phone)
  moreover have "\<exists>obj. track ex_db_ordered ''OIL4FZYO82M'' (Some ''+79990000001'') = (200, JObj obj)
          \<and> ''deliveryAddress'' \<notin> fst ` set obj \<and> ''email'' \<notin> fst ` set obj"
    using t [of "Some ''+79990000001''"] by (simp add: truthy_def ex_tracked_phone)
  ultimately show ?thesis using ex_tracked by blast
qed

text \<open>
  The claim as stated fails for a lookup without a phone, or with an empty one: the
  phone differs from the stored phone, and the answer is 400, not Forbidden.
\<close>

theorem track_access_counterexample:
  "find (\<lambda>ord. o_trackingNumber ord = Some ''OIL4FZYO82M'') (orders ex_db_ordered)
     = Some (hd (orders ex_db_ordered))
   \<and> None \<noteq> Some (o_phone (hd (orders ex_db_ordered)))
   \<and> track ex_db_ordered ''OIL4FZYO82M'' None = (400, error_body ''Phone number is required'')
   \<and> Some '''' \<noteq> Some (o_phone (hd (orders ex_db_ordered)))
   \<and> track ex_db_ordered ''OIL4FZYO82M'' (Some '''') = (400, error_body ''Phone number is required'')"
  using ex_tracked ex_tracked_phone by (simp add: track_def truthy_def)

section \<open>The facet summary\<close>

lemma set_uniq [simp]: "set (uniq xs) = set xs"
  by (induction xs) auto

lemma distinct_uniq [simp]: "distinct (uniq xs)"
  by (induction xs) auto

lemma set_truthy_strings: "set (truthy_strings xs) = {s. s \<noteq> [] \<and> Some s \<in> set xs}"
proof (induction xs)
  case Nil
  show ?case by (simp add: truthy_strings_def List.map_filter_simps)
next
  case (Cons x xs)
  then have IH: "set (List.map_filter (\<lambda>x. case x of None \<Rightarrow> None | Some s \<Rightarrow> if s = [] then None else Some s) xs)
      = {s. s \<noteq> [] \<and> Some s \<in> set xs}"
    by (simp add: truthy_strings_def)
  show ?case
  proof (cases x)
    case None
    with IH show ?thesis by (simp add: truthy_strings_def List.map_filter_simps)
  next
    case (Some s)
    with IH show ?thesis
      by (cases "s = []") (auto simp: truthy_strings_def List.map_filter_simps)
  qed
qed

lemma set_truthy_ints: "set (truthy_ints xs) = {i. i \<noteq> 0 \<and> Some i \<in> set xs}"
proof (induction xs)
  case Nil
  show ?case by (simp add: truthy_ints_def List.map_filter_simps)
next
  case (Cons x xs)
  then have IH: "set (List.map_filter (\<lambda>x. case x of None \<Rightarrow> None | Some i \<Rightarrow> if i = 0 then None else Some i) xs)
      = {i. i \<noteq> 0 \<and> Some i \<in> set xs}"
    by (simp add: truthy_ints_def)
  show ?case
  proof (cases x)
    case None
    with IH show ?thesis by (simp add: truthy_ints_def List.map_filter_simps)
  next
    case (Some i)
    with IH show ?thesis
      by (cases "i = 0") (auto simp: truthy_ints_def List.map_filter_simps)
  qed
qed

lemma Some_in_map: "Some s \<in> set (map col rows) \<longleftrightarrow> (\<exists>p \<in> set rows. col p = Some s)"
  by (induction rows) auto

lemma string_facet_spec:
  "sorted (string_facet col rows) \<and> distinct (string_facet col rows)
   \<and> set (string_facet col rows) = {s. s \<noteq> [] \<and> (\<exists>p \<in> set rows. col p = Some s)}"
  by (simp add: string_facet_def set_truthy_strings Some_in_map del: set_map)

lemma volume_facet_spec:
  "sorted (volume_facet rows) \<and> distinct (volume_facet rows)
   \<and> set (volume_facet rows) = {n. n \<noteq> 0 \<and> (\<exists>p \<in> set rows. p_volume_ml p = Some n)}"
  by (simp add: volume_facet_def set_truthy_ints Some_in_map del: set_map)


lemma aggregate_min_spec:
  "or_zero (aggregate_min rows) = (if rows = [] then 0 else Min (p_price ` set rows))"
proof (cases rows)
  case Nil
  then show ?thesis by (simp add: aggregate_min_def or_zero_def)
next
  case (Cons p ps)
  have "Min (set (p_price p # map p_price ps)) = fold min (map p_price ps) (p_price p)"
    by (rule Min.set_eq_fold)
  with Cons show ?thesis by (simp add: aggregate_min_def or_zero_def)
qed

lemma aggregate_max_spec:
  "or_zero (aggregate_max rows) = (if rows = [] then 0 else Max (p_price ` set rows))"
proof (cases rows)
  case Nil
  then show ?thesis by (simp add: aggregate_max_def or_zero_def)
next
  case (Cons p ps)
  have "Max (set (p_price p # map p_price ps)) = fold max (map p_price ps) (p_price p)"
    by (rule Max.set_eq_fold)
  with Cons show ?thesis by (simp add: aggregate_max_def or_zero_def)
qed

lemma filterOptions_rows:
  "(\<exists>p \<in> set (filterOptions d q). P p)
     \<longleftrightarrow> (\<exists>p \<in> set (products d). (q_inStock q = Some ''true'' \<longrightarrow> 0 < p_stock p) \<and> P p)"
  by (auto simp: filterOptions_def)

lemma catalog_filters_fields:
  "brands (catalog_filters d q) = string_facet p_brand (filterOptions d q)"
  "types (catalog_filters d q) = string_facet p_type (filterOptions d q)"
  "viscosities (catalog_filters d q) = string_facet p_viscosity (filterOptions d q)"
  "applications (catalog_filters d q) = string_facet p_application (filterOptions d q)"
  "volumes (catalog_filters d q) = volume_facet (filterOptions d q)"
  "priceRange_min (catalog_filters d q) = or_zero (aggregate_min (products d))"
  "priceRange_max (catalog_filters d q) = or_zero (aggregate_max (products d))"
  by (simp_all add: catalog_filters_def)

lemma ex_facets_in_stock:
  "q_inStock ex_q_true = Some ''true''
   \<and> brands (catalog_filters ex_db ex_q_true) = [''Motul'']
   \<and> volumes (catalog_filters ex_db ex_q_true) = [4000]
   \<and> priceRange_min (catalog_filters ex_db ex_q_true) = 1900
   \<and> priceRange_max (catalog_filters ex_db ex_q_true) = 3500"
proof -
  have q: "q_inStock ex_q_true = Some ''true''"
    by (simp add: ex_q_true_def)
  have rows: "filterOptions ex_db ex_q_true = [ex_product1]"
    by (simp add: filterOptions_def q ex_db_def ex_product1_def ex_product2_def)
  have "brands (catalog_filters ex_db ex_q_true) = [''Motul'']"
    by (simp add: catalog_filters_def rows string_facet_def truthy_strings_def
          List.map_filter_def ex_product1_def)
  moreover have "volumes (catalog_filters ex_db ex_q_true) = [4000]"
    by (simp add: catalog_filters_def rows volume_facet_def truthy_ints_def
          List.map_filter_def ex_product1_def)
  moreover have "priceRange_min (catalog_filters ex_db ex_q_true) = 1900"
    by (simp add: catalog_filters_def aggregate_min_def or_zero_def ex_db_def
          ex_product1_def ex_product2_def)
  moreover have "priceRange_max (catalog_filters ex_db ex_q_true) = 3500"
    by (simp add: catalog_filters_def aggregate_max_def or_zero_def ex_db_def
          ex_product1_def ex_product2_def)
  ultimately show ?thesis using q by simp
qed

text \<open>
  Claim C7, as amended. Each categorical facet list is sorted, without repetition,
  and holds exactly the non-empty values of its column over the products in stock when
  the query says \<open>inStock=true\<close>, and over the whole catalog for every other query,
  \<open>inStock=false\<close> included; the volume list likewise, in numeric order, without
  \<open>null\<close> and zero. The price range is the least and the greatest price of the whole
  catalog (zero for an empty catalog), the same for every query.
\<close>

theorem facet_summary:
  "sorted (brands (catalog_filters d q)) \<and> distinct (brands (catalog_filters d q))
       \<and> set (brands (catalog_filters d q)) =
           {s. s \<noteq> [] \<and> (\<exists>p \<in> set (products d).
                  (q_inStock q = Some ''true'' \<longrightarrow> 0 < p_stock p) \<and> p_brand p = Some s)}
       \<and> sorted (types (catalog_filters d q)) \<and> distinct (types (catalog_filters d q))
       \<and> set (types (catalog_filters d q)) =
           {s. s \<noteq> [] \<and> (\<exists>p \<in> set (products d).
                  (q_inStock q = Some ''true'' \<longrightarrow> 0 < p_stock p) \<and> p_type p = Some s)}
       \<and> sorted (viscosities (catalog_filters d q)) \<and> distinct (viscosities (catalog_filters d q))
       \<and> set (viscosities (catalog_filters d q)) =
           {s. s \<noteq> [] \<and> (\<exists>p \<in> set (products d).
                  (q_inStock q = Some ''true'' \<longrightarrow> 0 < p_stock p) \<and> p_viscosity p = Some s)}
       \<and> sorted (applications (catalog_filters d q)) \<and> distinct (applications (catalog_filters d q))
       \<and> set (applications (catalog_filters d q)) =
           {s. s \<noteq> [] \<and> (\<exists>p \<in> set (products d).
                  (q_inStock q = Some ''true'' \<longrightarrow> 0 < p_stock p) \<and> p_application p = Some s)}
       \<and> sorted (volumes (catalog_filters d q)) \<and> distinct (volumes (catalog_filters d q))
       \<and> set (volumes (catalog_filters d q)) =
           {n. n \<noteq> 0 \<and> (\<exists>p \<in> set (products d).
                  (q_inStock q = Some ''true'' \<longrightarrow> 0 < p_stock p) \<and> p_volume_ml p = Some n)}
       \<and> priceRange_min (catalog_filters d q) = (if products d = [] then 0 else Min (p_price ` set (products d)))
       \<and> priceRange_max (catalog_filters d q) = (if products d = [] then 0 else Max (p_price ` set (products d)))
       \<and> priceRange_min (catalog_filters d q) = priceRange_min (catalog_filters d q')
       \<and> priceRange_max (catalog_filters d q) = priceRange_max (catalog_filters d q')"
  unfolding catalog_filters_fields
  by (simp only: string_facet_spec volume_facet_spec filterOptions_rows
        aggregate_min_spec aggregate_max_spec simp_thms)

theorem facet_summary_witness:
  "set (brands (catalog_filters ex_db ex_q_true)) =
      {s. s \<noteq> [] \<and> (\<exists>p \<in> set (products ex_db).
             (q_inStock ex_q_true = Some ''true'' \<longrightarrow> 0 < p_stock p) \<and> p_brand p = Some s)}
   \<and> q_inStock ex_q_true = Some ''true''
   \<and> brands (catalog_filters ex_db ex_q_true) = [''Motul'']
   \<and> volumes (catalog_filters ex_db ex_q_true) = [4000]
   \<and> priceRange_min (catalog_filters ex_db ex_q_true) = 1900
   \<and> priceRange_max (catalog_filters ex_db ex_q_true) = 3500"
proof -
  note brands_set = facet_summary [of ex_db ex_q_true, THEN conjunct2, THEN conjunct2, THEN conjunct1]
  show ?thesis
    by (rule conjI [OF brands_set ex_facets_in_stock])
qed

text \<open>
  The claim as stated fails for \<open>inStock=false\<close>: a stock filter is active
  (\<open>stock = 0\<close>), the out-of-stock products have the single brand Lukoil, and the
  brand facet lists both brands of the catalog.
\<close>

theorem facet_summary_counterexample:
  "w_stock (build_where ex_ops ex_q_false) = Some StockEq0
   \<and> brands (catalog_filters ex_db ex_q_false) = [''Lukoil'', ''Motul'']
   \<and> string_facet p_brand (filter (\<lambda>p. p_stock p = 0) (products ex_db)) = [''Lukoil'']"
  by code_simp

section \<open>Numeric query parameters\<close>









section \<open>The user refresh after the transaction\<close>

lemma refresh_user_Inl: "refresh_user v d = Inl e \<Longrightarrow> userId_or_null (userId v) \<noteq> None"
  by (auto simp: refresh_user_def split: option.splits)

lemma ex_refresh_prepare:
  "prepare ex_ops ex_value_refresh (product_findMany_in ex_db (map productId (items ex_value_refresh)))
     = Inr (10500, [(1, 2)], [(1, 3, 3500)])"
  by code_simp

lemma ex_refresh_fails:
  "(case transaction (db_now ex_rt) (order_data_of ex_rt ex_value_refresh 10500 [(1, 3, 3500)]) [(1, 2)] ex_db of
      Inl e \<Rightarrow> False
    | Inr (ord, its, d1) \<Rightarrow> refresh_user ex_value_refresh d1 = Inl P2002)"
  by code_simp

text \<open>
  Claim C9, as amended. Once the line items have passed both checks: when the
  transaction throws, nothing is written and the answer is 500; when the transaction
  has committed, the user refresh runs on the committed database (it is attempted only
  for a truthy \<open>userId\<close>), and if it throws, the order rows and stock writes of the
  transaction stay as committed and the answer is 500 \<open>Server error creating order\<close>,
  as for every other exception of the handler: the failure is reported, not swallowed;
  when the refresh succeeds the answer is 201 and the refresh has left orders, order
  items and products as the transaction wrote them.
\<close>

theorem refresh_failure_reported:
  assumes "prepare ops v (product_findMany_in d (map productId (items v))) = Inr (t, us, os)"
  shows "(\<forall>e. transaction (db_now rt) (order_data_of rt v t os) us d = Inl e \<longrightarrow>
            create_order ops rt (JoiValue v) d = ((500, error_body ''Server error creating order''), d))
       \<and> (\<forall>ord its d1 e.
            transaction (db_now rt) (order_data_of rt v t os) us d = Inr (ord, its, d1)
            \<and> refresh_user v d1 = Inl e \<longrightarrow>
              create_order ops rt (JoiValue v) d = ((500, error_body ''Server error creating order''), d1)
              \<and> orders d1 = orders d @ [ord] \<and> orderItems d1 = orderItems d @ its
              \<and> userId_or_null (userId v) \<noteq> None)
       \<and> (\<forall>ord its d1 d2.
            transaction (db_now rt) (order_data_of rt v t os) us d = Inr (ord, its, d1)
            \<and> refresh_user v d1 = Inr d2 \<longrightarrow>
              create_order ops rt (JoiValue v) d = ((201, created_body d1 ord its), d2)
              \<and> orders d2 = orders d @ [ord] \<and> orderItems d2 = orderItems d @ its
              \<and> products d2 = products d1)"
proof (intro conjI allI impI)
  fix e
  assume "transaction (db_now rt) (order_data_of rt v t os) us d = Inl e"
  with assms show "create_order ops rt (JoiValue v) d = ((500, error_body ''Server error creating order''), d)"
    by (simp add: create_order_def create_order_from_def)
next
  fix ord its d1 e
  assume a: "transaction (db_now rt) (order_data_of rt v t os) us d = Inr (ord, its, d1)
            \<and> refresh_user v d1 = Inl e"
  with assms show "create_order ops rt (JoiValue v) d = ((500, error_body ''Server error creating order''), d1)"
    by (simp add: create_order_def create_order_from_def)
  from a transaction_Inr show "orders d1 = orders d @ [ord]" "orderItems d1 = orderItems d @ its"
    by blast+
  from a refresh_user_Inl show "userId_or_null (userId v) \<noteq> None"
    by blast
next
  fix ord its d1 d2
  assume a: "transaction (db_now rt) (order_data_of rt v t os) us d = Inr (ord, its, d1)
            \<and> refresh_user v d1 = Inr d2"
  with assms show "create_order ops rt (JoiValue v) d = ((201, created_body d1 ord its), d2)"
    by (simp add: create_order_def create_order_from_def)
  from a have tx: "orders d1 = orders d @ [ord]" "orderItems d1 = orderItems d @ its"
    using transaction_Inr by blast+
  from a have rf: "orders d2 = orders d1" "orderItems d2 = orderItems d1" "products d2 = products d1"
    using refresh_user_frame by blast+
  from tx rf show "orders d2 = orders d @ [ord]" "orderItems d2 = orderItems d @ its"
    "products d2 = products d1"
    by simp_all
qed

theorem refresh_failure_reported_witness:
  "prepare ex_ops ex_value_refresh (product_findMany_in ex_db (map productId (items ex_value_refresh)))
     = Inr (10500, [(1, 2)], [(1, 3, 3500)])
   \<and> (\<exists>ord its d1.
         transaction (db_now ex_rt) (order_data_of ex_rt ex_value_refresh 10500 [(1, 3, 3500)]) [(1, 2)] ex_db
           = Inr (ord, its, d1)
       \<and> refresh_user ex_value_refresh d1 = Inl P2002
       \<and> create_order ex_ops ex_rt (JoiValue ex_value_refresh) ex_db
           = ((500, error_body ''Server error creating order''), d1)
       \<and> orders d1 = orders ex_db @ [ord])"
proof -
  from ex_refresh_fails obtain ord its d1 where
    tx: "transaction (db_now ex_rt) (order_data_of ex_rt ex_value_refresh 10500 [(1, 3, 3500)]) [(1, 2)] ex_db
           = Inr (ord, its, d1)"
    and rf: "refresh_user ex_value_refresh d1 = Inl P2002"
    by (auto split: sum.splits)
  from refresh_failure_reported [OF ex_refresh_prepare, of ex_rt] tx rf
  have "create_order ex_ops ex_rt (JoiValue ex_value_refresh) ex_db
           = ((500, error_body ''Server error creating order''), d1)
       \<and> orders d1 = orders ex_db @ [ord]"
    by blast
  with tx rf ex_refresh_prepare show ?thesis by blast
qed

text \<open>
  The claim as stated fails where the refresh violates the unique email of another
  user: the order is committed, the stock is decremented, and the request is answered
  500.
\<close>

theorem refresh_failure_counterexample:
  "userId ex_value_refresh = Some 1
   \<and> fst (create_order ex_ops ex_rt (JoiValue ex_value_refresh) ex_db)
       = (500, error_body ''Server error creating order'')
   \<and> refresh_user ex_value_refresh (snd (create_order ex_ops ex_rt (JoiValue ex_value_refresh) ex_db))
       = Inl P2002
   \<and> map o_orderNumber (orders (snd (create_order ex_ops ex_rt (JoiValue ex_value_refresh) ex_db)))
       = [''OM2611030042'']
   \<and> map p_stock (products (snd (create_order ex_ops ex_rt (JoiValue ex_value_refresh) ex_db))) = [2, 0]"
  by code_simp

section \<open>The admin guard\<close>

text \<open>
  Claim C10. \<open>requireAdmin\<close> hands every request to the next handler, whatever the
  session holds, and each of the ten routes registered behind it (logout, statistics,
  product list, read, creation, update and deletion, order list, read and update)
  answers and writes the same for any two session states, an admin logged in or not.
\<close>

theorem admin_guard_pass_through:
  "requireAdmin req next' = next' req
   \<and> logout_route destroy_failed (r0\<lparr>session_of := s\<rparr>) d
       = logout_route destroy_failed (r0\<lparr>session_of := s'\<rparr>) d
   \<and> stats_route reads (r0\<lparr>session_of := s\<rparr>) d = stats_route reads (r0\<lparr>session_of := s'\<rparr>) d
   \<and> get_products_route findProducts countProducts (r1\<lparr>session_of := s\<rparr>) d
       = get_products_route findProducts countProducts (r1\<lparr>session_of := s'\<rparr>) d
   \<and> get_product_route (r0\<lparr>session_of := s\<rparr>) d = get_product_route (r0\<lparr>session_of := s'\<rparr>) d
   \<and> post_product_route now date_now (r2\<lparr>session_of := s\<rparr>) d
       = post_product_route now date_now (r2\<lparr>session_of := s'\<rparr>) d
   \<and> put_product_route now (r2\<lparr>session_of := s\<rparr>) d = put_product_route now (r2\<lparr>session_of := s'\<rparr>) d
   \<and> delete_product_route (r0\<lparr>session_of := s\<rparr>) d = delete_product_route (r0\<lparr>session_of := s'\<rparr>) d
   \<and> get_orders_route findOrders countOrders (r3\<lparr>session_of := s\<rparr>) d
       = get_orders_route findOrders countOrders (r3\<lparr>session_of := s'\<rparr>) d
   \<and> get_order_route (r0\<lparr>session_of := s\<rparr>) d = get_order_route (r0\<lparr>session_of := s'\<rparr>) d
   \<and> put_order_route now (r4\<lparr>session_of := s\<rparr>) d = put_order_route now (r4\<lparr>session_of := s'\<rparr>) d"
proof (intro conjI)
  show "requireAdmin req next' = next' req"
    by (simp add: requireAdmin_def)
  show "logout_route destroy_failed (r0\<lparr>session_of := s\<rparr>) d
       = logout_route destroy_failed (r0\<lparr>session_of := s'\<rparr>) d"
    by (simp add: logout_route_def requireAdmin_def admin_logout_def)
  show "stats_route reads (r0\<lparr>session_of := s\<rparr>) d = stats_route reads (r0\<lparr>session_of := s'\<rparr>) d"
    by (simp add: stats_route_def requireAdmin_def admin_stats_def)
  show "get_products_route findProducts countProducts (r1\<lparr>session_of := s\<rparr>) d
       = get_products_route findProducts countProducts (r1\<lparr>session_of := s'\<rparr>) d"
    by (simp add: get_products_route_def requireAdmin_def admin_get_products_def Let_def
          split: sum.splits)
  show "get_product_route (r0\<lparr>session_of := s\<rparr>) d = get_product_route (r0\<lparr>session_of := s'\<rparr>) d"
    by (simp add: get_product_route_def requireAdmin_def admin_get_product_def)
  show "post_product_route now date_now (r2\<lparr>session_of := s\<rparr>) d
       = post_product_route now date_now (r2\<lparr>session_of := s'\<rparr>) d"
    by (simp add: post_product_route_def requireAdmin_def admin_post_product_def)
  show "put_product_route now (r2\<lparr>session_of := s\<rparr>) d = put_product_route now (r2\<lparr>session_of := s'\<rparr>) d"
    by (simp add: put_product_route_def requireAdmin_def admin_put_product_def)
  show "delete_product_route (r0\<lparr>session_of := s\<rparr>) d = delete_product_route (r0\<lparr>session_of := s'\<rparr>) d"
    by (simp add: delete_product_route_def requireAdmin_def admin_delete_product_def)
  show "get_orders_route findOrders countOrders (r3\<lparr>session_of := s\<rparr>) d
       = get_orders_route findOrders countOrders (r3\<lparr>session_of := s'\<rparr>) d"
    by (simp add: get_orders_route_def requireAdmin_def admin_get_orders_def Let_def
          split: sum.splits)
  show "get_order_route (r0\<lparr>session_of := s\<rparr>) d = get_order_route (r0\<lparr>session_of := s'\<rparr>) d"
    by (simp add: get_order_route_def requireAdmin_def admin_get_order_def)
  show "put_order_route now (r4\<lparr>session_of := s\<rparr>) d = put_order_route now (r4\<lparr>session_of := s'\<rparr>) d"
    by (simp add: put_order_route_def requireAdmin_def admin_put_order_def)
qed

end
